theory Spec2Isabelle
  imports Complex_Main
begin

section \<open>Floating-point values\<close>

text \<open>
  The prices, ATR values, regime indicators and probabilities of the program are
  Python/numpy floats. A float is a finite number, one of the two infinities, or NaN.
  Sums, differences, products and quotients of finite prices and probabilities are
  exact here: the rounding of such a result to 53 bits is not part of the model. The one
  place where the rounding is modelled is the product that \<^verbatim>\<open>int\<close> truncates (below),
  where the last bit decides the integer. Every comparison with NaN is false, as in
  Python.
\<close>

datatype pyfloat = Fin real | PInf | NInf | NaN

datatype py_error = IndexError | ZeroDivisionError

definition isnan :: "pyfloat \<Rightarrow> bool" where
  "isnan x = (x = NaN)"

fun fle :: "pyfloat \<Rightarrow> pyfloat \<Rightarrow> bool" where
  "fle (Fin a) (Fin b) = (a \<le> b)"
| "fle (Fin a) PInf = True"
| "fle NInf (Fin b) = True"
| "fle NInf NInf = True"
| "fle NInf PInf = True"
| "fle PInf PInf = True"
| "fle _ _ = False"

fun flt :: "pyfloat \<Rightarrow> pyfloat \<Rightarrow> bool" where
  "flt (Fin a) (Fin b) = (a < b)"
| "flt (Fin a) PInf = True"
| "flt NInf (Fin b) = True"
| "flt NInf PInf = True"
| "flt _ _ = False"

definition fge :: "pyfloat \<Rightarrow> pyfloat \<Rightarrow> bool" where
  "fge a b = fle b a"

definition fgt :: "pyfloat \<Rightarrow> pyfloat \<Rightarrow> bool" where
  "fgt a b = flt b a"

text \<open>\<^verbatim>\<open>x == 0\<close> on a float.\<close>

definition is_zero :: "pyfloat \<Rightarrow> bool" where
  "is_zero x = (x = Fin 0)"

fun fneg :: "pyfloat \<Rightarrow> pyfloat" where
  "fneg (Fin a) = Fin (- a)"
| "fneg PInf = NInf"
| "fneg NInf = PInf"
| "fneg NaN = NaN"

fun fadd :: "pyfloat \<Rightarrow> pyfloat \<Rightarrow> pyfloat" where
  "fadd (Fin a) (Fin b) = Fin (a + b)"
| "fadd NaN _ = NaN"
| "fadd _ NaN = NaN"
| "fadd PInf NInf = NaN"
| "fadd NInf PInf = NaN"
| "fadd PInf _ = PInf"
| "fadd _ PInf = PInf"
| "fadd NInf _ = NInf"
| "fadd _ NInf = NInf"

definition fsub :: "pyfloat \<Rightarrow> pyfloat \<Rightarrow> pyfloat" where
  "fsub a b = fadd a (fneg b)"

text \<open>The product of an infinity and a finite factor takes the sign of the factor.\<close>

definition inf_times :: "bool \<Rightarrow> real \<Rightarrow> pyfloat" where
  "inf_times positive a =
     (if a = 0 then NaN else if (0 < a) = positive then PInf else NInf)"

fun fmul :: "pyfloat \<Rightarrow> pyfloat \<Rightarrow> pyfloat" where
  "fmul (Fin a) (Fin b) = Fin (a * b)"
| "fmul NaN _ = NaN"
| "fmul _ NaN = NaN"
| "fmul (Fin a) PInf = inf_times True a"
| "fmul (Fin a) NInf = inf_times False a"
| "fmul PInf (Fin b) = inf_times True b"
| "fmul NInf (Fin b) = inf_times False b"
| "fmul PInf PInf = PInf"
| "fmul NInf NInf = PInf"
| "fmul PInf NInf = NInf"
| "fmul NInf PInf = NInf"

text \<open>
  \<^verbatim>\<open>a / b\<close> on two Python floats (the module constants): a zero divisor raises
  \<^verbatim>\<open>ZeroDivisionError\<close>.
\<close>

fun py_truediv :: "pyfloat \<Rightarrow> pyfloat \<Rightarrow> py_error + pyfloat" where
  "py_truediv NaN (Fin b) = (if b = 0 then Inl ZeroDivisionError else Inr NaN)"
| "py_truediv (Fin a) (Fin b) = (if b = 0 then Inl ZeroDivisionError else Inr (Fin (a / b)))"
| "py_truediv PInf (Fin b) =
     (if b = 0 then Inl ZeroDivisionError else Inr (inf_times True b))"
| "py_truediv NInf (Fin b) =
     (if b = 0 then Inl ZeroDivisionError else Inr (inf_times False b))"
| "py_truediv NaN _ = Inr NaN"
| "py_truediv _ NaN = Inr NaN"
| "py_truediv (Fin a) _ = Inr (Fin 0)"
| "py_truediv _ _ = Inr NaN"

text \<open>Python's \<^verbatim>\<open>max(a, b)\<close>: the second argument wins only when it is greater.\<close>

definition py_max :: "pyfloat \<Rightarrow> pyfloat \<Rightarrow> pyfloat" where
  "py_max a b = (if fgt b a then b else a)"

text \<open>
  Rounding to the nearest double, ties to the even mantissa: \<open>binary_exponent x\<close> is
  the \<open>e\<close> with \<open>2 ^ e \<le> x < 2 ^ (e + 1)\<close>, and a double in that range is a multiple of
  \<open>2 ^ (e - 52)\<close>. Overflow and subnormal numbers are left out.
\<close>

definition round_half_even :: "real \<Rightarrow> int" where
  "round_half_even x =
     (let f = \<lfloor>x\<rfloor>; d = x - of_int f
      in if d < 1 / 2 then f else if 1 / 2 < d then f + 1 else if even f then f else f + 1)"

fun bit_length :: "nat \<Rightarrow> nat" where
  "bit_length n = (if n = 0 then 0 else Suc (bit_length (n div 2)))"

declare bit_length.simps [simp del]

definition pow2 :: "int \<Rightarrow> real" where
  "pow2 k = (if 0 \<le> k then 2 ^ nat k else 1 / 2 ^ nat (- k))"

definition binary_exponent :: "real \<Rightarrow> int" where
  "binary_exponent x =
     (if 1 \<le> x then int (bit_length (nat \<lfloor>x\<rfloor>)) - 1
      else - int (bit_length (nat (\<lceil>1 / x\<rceil> - 1))))"

definition round_double :: "real \<Rightarrow> real" where
  "round_double x =
     (if x = 0 then 0
      else
        (let u = pow2 (binary_exponent \<bar>x\<bar>) / 2 ^ 52
         in of_int (round_half_even (x / u)) * u))"

text \<open>
  \<^verbatim>\<open>int(h * c)\<close> for a Python int \<open>h\<close> and a float literal \<open>c\<close>: the int and the
  literal become doubles, their product is rounded to a double, and \<^verbatim>\<open>int\<close> truncates
  it toward zero. So \<^verbatim>\<open>int(10 * 0.7)\<close> is 7 and \<^verbatim>\<open>int(90 * 0.7)\<close> is 62.
\<close>

definition trunc_zero :: "real \<Rightarrow> int" where
  "trunc_zero r = (if 0 \<le> r then \<lfloor>r\<rfloor> else \<lceil>r\<rceil>)"

definition int_of_product :: "int \<Rightarrow> real \<Rightarrow> int" where
  "int_of_product h c =
     trunc_zero (round_double (round_double (of_int h) * round_double c))"

section \<open>Configuration (config.py)\<close>

text \<open>
  The labeling parameters are module constants of \<^verbatim>\<open>config.py\<close>, read by the labeling
  and signal code as globals. They are passed explicitly here; \<open>module_config\<close> holds
  the values the file assigns.
\<close>

record config =
  TP_ATR_MULT :: pyfloat
  SL_ATR_MULT :: pyfloat
  MIN_HORIZON_DAYS :: int
  MAX_HORIZON_DAYS :: int

definition module_config :: config where
  "module_config =
     \<lparr>TP_ATR_MULT = Fin 1.8, SL_ATR_MULT = Fin 1.0,
      MIN_HORIZON_DAYS = 3, MAX_HORIZON_DAYS = 10\<rparr>"

definition CONFIDENCE_THRESHOLD :: pyfloat where
  "CONFIDENCE_THRESHOLD = Fin 0.7"

section \<open>Bars\<close>

text \<open>
  One row of the feature frame: the columns that labeling and signal generation read.
\<close>

record bar =
  time :: int
  symbol :: string
  close :: pyfloat
  high :: pyfloat
  low :: pyfloat
  atr :: pyfloat
  vol_ratio :: pyfloat
  trend_strength :: pyfloat

text \<open>
  The frame given to the labeling function. The two regime columns are optional: the
  code tests \<^verbatim>\<open>"vol_ratio" in df.columns\<close> and falls back to a column of ones
  (zeros for the trend strength).
\<close>

record dataframe =
  rows :: "bar list"
  has_vol_ratio :: bool
  has_trend_strength :: bool

definition row_at :: "bar list \<Rightarrow> nat \<Rightarrow> py_error + bar" where
  "row_at bs j = (if j < length bs then Inr (bs ! j) else Inl IndexError)"

section \<open>Labeling (labeling.py, apply\_triple\_barrier\_for\_symbol)\<close>

subsection \<open>Regime and barrier parameters (lines 69--102)\<close>

definition current_vol_ratio :: "pyfloat \<Rightarrow> pyfloat" where
  "current_vol_ratio v = (if \<not> isnan v then v else Fin 1.0)"

definition current_trend :: "pyfloat \<Rightarrow> pyfloat" where
  "current_trend t = (if \<not> isnan t then t else Fin 0.0)"

definition tp_mult :: "config \<Rightarrow> pyfloat \<Rightarrow> pyfloat \<Rightarrow> pyfloat" where
  "tp_mult cfg trend vr =
     (if fgt trend (Fin 30) then Fin 2.5
      else if flt vr (Fin 0.8) then Fin 1.5
      else TP_ATR_MULT cfg)"

definition sl_mult :: "config \<Rightarrow> pyfloat" where
  "sl_mult cfg = SL_ATR_MULT cfg"

definition horizon :: "config \<Rightarrow> pyfloat \<Rightarrow> int" where
  "horizon cfg vr =
     (if fgt vr (Fin 1.5) then
        max (MIN_HORIZON_DAYS cfg) (int_of_product (MAX_HORIZON_DAYS cfg) 0.5)
      else if fgt vr (Fin 1.2) then
        max (MIN_HORIZON_DAYS cfg) (int_of_product (MAX_HORIZON_DAYS cfg) 0.7)
      else if flt vr (Fin 0.8) then
        min (int_of_product (MAX_HORIZON_DAYS cfg) 1.3) 13
      else MAX_HORIZON_DAYS cfg)"

subsection \<open>Forward scan (lines 112--134)\<close>

datatype barrier = TP | SL

type_synonym hit = "(nat \<times> barrier) option"

definition check_long :: "pyfloat \<Rightarrow> pyfloat \<Rightarrow> nat \<Rightarrow> bar \<Rightarrow> hit \<Rightarrow> hit" where
  "check_long tp_long sl_long j b hit_long =
     (if hit_long = None then
        (if fge (high b) tp_long then Some (j, TP)
         else if fle (low b) sl_long then Some (j, SL)
         else hit_long)
      else hit_long)"

definition check_short :: "pyfloat \<Rightarrow> pyfloat \<Rightarrow> nat \<Rightarrow> bar \<Rightarrow> hit \<Rightarrow> hit" where
  "check_short tp_short sl_short j b hit_short =
     (if hit_short = None then
        (if fle (low b) tp_short then Some (j, TP)
         else if fge (high b) sl_short then Some (j, SL)
         else hit_short)
      else hit_short)"

text \<open>
  The loop \<^verbatim>\<open>for j in range(start, end)\<close>, from its current index \<open>j\<close>. A row is read
  only while one of the two hits is still open; a read past the last row raises.
\<close>

function scan_forward ::
  "bar list \<Rightarrow> pyfloat \<Rightarrow> pyfloat \<Rightarrow> pyfloat \<Rightarrow> pyfloat \<Rightarrow> nat \<Rightarrow> int \<Rightarrow> hit \<Rightarrow> hit
     \<Rightarrow> py_error + (hit \<times> hit)" where
  "scan_forward bs tp_long sl_long tp_short sl_short j end hit_long hit_short =
     (if int j < end then
        (if hit_long \<noteq> None \<and> hit_short \<noteq> None then Inr (hit_long, hit_short)
         else
           (case row_at bs j of
              Inl e \<Rightarrow> Inl e
            | Inr b \<Rightarrow>
                (let hit_long' = check_long tp_long sl_long j b hit_long;
                     hit_short' = check_short tp_short sl_short j b hit_short
                 in if hit_long' \<noteq> None \<and> hit_short' \<noteq> None
                    then Inr (hit_long', hit_short')
                    else scan_forward bs tp_long sl_long tp_short sl_short (Suc j) end
                           hit_long' hit_short')))
      else Inr (hit_long, hit_short))"
  by pat_completeness auto
termination
  by (relation "measure (\<lambda>(bs, tpl, sll, tps, sls, j, e, hl, hs). nat (e - int j))") auto

declare scan_forward.simps [simp del]

subsection \<open>Label from the two outcomes (lines 136--157)\<close>

definition outcome :: "hit \<Rightarrow> int" where
  "outcome h = (case h of None \<Rightarrow> 0 | Some (j, k) \<Rightarrow> (if k = TP then 1 else - 1))"

definition determine_label :: "hit \<Rightarrow> hit \<Rightarrow> int" where
  "determine_label hit_long hit_short =
     (if hit_long = None \<and> hit_short = None then 0
      else
        (let long_outcome = outcome hit_long;
             short_outcome = outcome hit_short
         in if long_outcome > short_outcome then 1
            else if short_outcome > long_outcome then - 1
            else 0))"

subsection \<open>One iteration of the candle loop (lines 61--157)\<close>

definition atr_missing :: "pyfloat \<Rightarrow> bool" where
  "atr_missing a = (isnan a \<or> is_zero a)"

definition regime_vol :: "bool \<Rightarrow> bar \<Rightarrow> pyfloat" where
  "regime_vol hv b = current_vol_ratio (if hv then vol_ratio b else Fin 1)"

definition regime_trend :: "bool \<Rightarrow> bar \<Rightarrow> pyfloat" where
  "regime_trend ht b = current_trend (if ht then trend_strength b else Fin 0)"

definition tp_long :: "config \<Rightarrow> bool \<Rightarrow> bool \<Rightarrow> bar \<Rightarrow> pyfloat" where
  "tp_long cfg hv ht b =
     fadd (close b) (fmul (tp_mult cfg (regime_trend ht b) (regime_vol hv b)) (atr b))"

definition sl_long :: "config \<Rightarrow> bar \<Rightarrow> pyfloat" where
  "sl_long cfg b = fsub (close b) (fmul (sl_mult cfg) (atr b))"

definition tp_short :: "config \<Rightarrow> bool \<Rightarrow> bool \<Rightarrow> bar \<Rightarrow> pyfloat" where
  "tp_short cfg hv ht b =
     fsub (close b) (fmul (tp_mult cfg (regime_trend ht b) (regime_vol hv b)) (atr b))"

definition sl_short :: "config \<Rightarrow> bar \<Rightarrow> pyfloat" where
  "sl_short cfg b = fadd (close b) (fmul (sl_mult cfg) (atr b))"

definition window_end :: "nat \<Rightarrow> int \<Rightarrow> nat \<Rightarrow> int" where
  "window_end i h n = min (int i + h + 1) (int n)"

definition label_at :: "config \<Rightarrow> bool \<Rightarrow> bool \<Rightarrow> bar list \<Rightarrow> nat \<Rightarrow> py_error + int" where
  "label_at cfg hv ht bs i =
     (case row_at bs i of
        Inl e \<Rightarrow> Inl e
      | Inr b \<Rightarrow>
          if atr_missing (atr b) then Inr 0
          else
            (let h = horizon cfg (regime_vol hv b);
                 start = i + 1;
                 end = window_end i h (length bs)
             in if start \<ge> length bs then Inr 0
                else
                  (case scan_forward bs (tp_long cfg hv ht b) (sl_long cfg b)
                          (tp_short cfg hv ht b) (sl_short cfg b) start end None None of
                     Inl e \<Rightarrow> Inl e
                   | Inr (hit_long, hit_short) \<Rightarrow> Inr (determine_label hit_long hit_short))))"

text \<open>The loop \<^verbatim>\<open>for i in range(n)\<close>, stopping at the first exception.\<close>

fun label_loop :: "(nat \<Rightarrow> py_error + int) \<Rightarrow> nat list \<Rightarrow> py_error + int list" where
  "label_loop f [] = Inr []"
| "label_loop f (i # is) =
     (case f i of
        Inl e \<Rightarrow> Inl e
      | Inr l \<Rightarrow> (case label_loop f is of Inl e \<Rightarrow> Inl e | Inr ls \<Rightarrow> Inr (l # ls)))"

text \<open>
  The whole function: the frame is sorted by time, every candle is labeled, and the
  sorted rows are returned with their labels.
\<close>

definition sorted_rows :: "dataframe \<Rightarrow> bar list" where
  "sorted_rows df = sort_key time (rows df)"

definition apply_triple_barrier_for_symbol ::
  "config \<Rightarrow> dataframe \<Rightarrow> py_error + (bar \<times> int) list" where
  "apply_triple_barrier_for_symbol cfg df =
     (let bs = sorted_rows df
      in case label_loop (label_at cfg (has_vol_ratio df) (has_trend_strength df) bs)
                [0 ..< length bs] of
           Inl e \<Rightarrow> Inl e
         | Inr labels \<Rightarrow> Inr (zip bs labels))"

section \<open>Signal generation (signal\_engine.py, generate\_signals)\<close>

datatype direction = LONG | SHORT | NONE

record signal =
  timestamp :: int
  signal_symbol :: string
  direction :: direction
  confidence :: pyfloat
  prob_long :: pyfloat
  entry_price :: pyfloat
  tp_price :: pyfloat
  sl_price :: pyfloat
  signal_atr :: pyfloat
  risk_reward_ratio :: pyfloat

text \<open>Lines 79--88: the direction and the confidence from the probability.\<close>

definition determine_direction :: "pyfloat \<Rightarrow> pyfloat \<Rightarrow> direction \<times> pyfloat" where
  "determine_direction prob confidence_threshold =
     (if fge prob confidence_threshold then (LONG, prob)
      else if fle prob (fsub (Fin 1) confidence_threshold) then (SHORT, fsub (Fin 1) prob)
      else (NONE, py_max prob (fsub (Fin 1) prob)))"

text \<open>
  Lines 75--121: the body of the row loop. \<open>None\<close> is a \<^verbatim>\<open>continue\<close>: no signal for
  this row. The ratio of the two multiples is computed when the record is built.
\<close>

definition signal_for_row :: "config \<Rightarrow> pyfloat \<Rightarrow> bar \<Rightarrow> pyfloat \<Rightarrow> py_error + signal option" where
  "signal_for_row cfg confidence_threshold row prob =
     (case determine_direction prob confidence_threshold of
        (dir, conf) \<Rightarrow>
          if dir = NONE then Inr None
          else if isnan (atr row) \<or> is_zero (atr row) then Inr None
          else
            (let tp = (if dir = LONG
                       then fadd (close row) (fmul (TP_ATR_MULT cfg) (atr row))
                       else fsub (close row) (fmul (TP_ATR_MULT cfg) (atr row)));
                 sl = (if dir = LONG
                       then fsub (close row) (fmul (SL_ATR_MULT cfg) (atr row))
                       else fadd (close row) (fmul (SL_ATR_MULT cfg) (atr row)))
             in case py_truediv (TP_ATR_MULT cfg) (SL_ATR_MULT cfg) of
                  Inl e \<Rightarrow> Inl e
                | Inr rr \<Rightarrow>
                    Inr (Some \<lparr>timestamp = time row, signal_symbol = symbol row,
                               direction = dir, confidence = conf, prob_long = prob,
                               entry_price = close row, tp_price = tp, sl_price = sl,
                               signal_atr = atr row, risk_reward_ratio = rr\<rparr>)))"

text \<open>
  The loop over the rows of one symbol, appending to \<^verbatim>\<open>signals\<close>; each row comes with
  the probability the classifier gave it.
\<close>

fun rows_loop ::
  "config \<Rightarrow> pyfloat \<Rightarrow> (bar \<times> pyfloat) list \<Rightarrow> signal list \<Rightarrow> py_error + signal list" where
  "rows_loop cfg t [] signals = Inr signals"
| "rows_loop cfg t ((row, prob) # rest) signals =
     (case signal_for_row cfg t row prob of
        Inl e \<Rightarrow> Inl e
      | Inr None \<Rightarrow> rows_loop cfg t rest signals
      | Inr (Some s) \<Rightarrow> rows_loop cfg t rest (signals @ [s]))"

text \<open>
  The loop over the symbols. The input is what the code has in hand after loading the
  classifier and the data: for each symbol, in sorted order, the rows left by
  \<^verbatim>\<open>tail(1)\<close> and \<^verbatim>\<open>dropna\<close>, with the predicted probability of each row.
\<close>

fun symbols_loop ::
  "config \<Rightarrow> pyfloat \<Rightarrow> (bar \<times> pyfloat) list list \<Rightarrow> signal list \<Rightarrow> py_error + signal list" where
  "symbols_loop cfg t [] signals = Inr signals"
| "symbols_loop cfg t (symbol_df # rest) signals =
     (case rows_loop cfg t symbol_df signals of
        Inl e \<Rightarrow> Inl e
      | Inr signals' \<Rightarrow> symbols_loop cfg t rest signals')"

definition generate_signals ::
  "config \<Rightarrow> pyfloat \<Rightarrow> (bar \<times> pyfloat) list list \<Rightarrow> py_error + signal list" where
  "generate_signals cfg confidence_threshold frames =
     symbols_loop cfg confidence_threshold frames []"

section \<open>The scan window and the first barrier touched, as the specification words them\<close>

text \<open>
  The window of entry index \<open>i\<close>: the indices from \<open>i + 1\<close> through
  \<open>min (i + horizon) last_index\<close>, in increasing order.
\<close>

definition spec_window :: "nat \<Rightarrow> int \<Rightarrow> nat \<Rightarrow> nat list" where
  "spec_window i h n =
     filter (\<lambda>j. int i + 1 \<le> int j \<and> int j \<le> min (int i + h) (int n - 1)) [0 ..< n]"

text \<open>
  The barrier a single bar touches, for the long and for the short hypothesis: the
  take-profit condition is looked at first.
\<close>

definition long_kind :: "pyfloat \<Rightarrow> pyfloat \<Rightarrow> bar \<Rightarrow> barrier option" where
  "long_kind tpl sll b =
     (if fge (high b) tpl then Some TP else if fle (low b) sll then Some SL else None)"

definition short_kind :: "pyfloat \<Rightarrow> pyfloat \<Rightarrow> bar \<Rightarrow> barrier option" where
  "short_kind tps sls b =
     (if fle (low b) tps then Some TP else if fge (high b) sls then Some SL else None)"

text \<open>The first index of a list of indices whose bar touches a barrier, with its kind.\<close>

fun first_hit :: "(bar \<Rightarrow> barrier option) \<Rightarrow> bar list \<Rightarrow> nat list \<Rightarrow> hit" where
  "first_hit f bs [] = None"
| "first_hit f bs (j # js) =
     (case f (bs ! j) of Some k \<Rightarrow> Some (j, k) | None \<Rightarrow> first_hit f bs js)"

definition or_else :: "hit \<Rightarrow> hit \<Rightarrow> hit" where
  "or_else h h' = (case h of None \<Rightarrow> h' | Some x \<Rightarrow> Some x)"

section \<open>Example inputs\<close>

definition example_bar :: "real \<Rightarrow> real \<Rightarrow> bar" where
  "example_bar h l =
     \<lparr>time = 0, symbol = ''EURUSD'', close = Fin 10, high = Fin h, low = Fin l,
      atr = Fin 1, vol_ratio = Fin 1, trend_strength = Fin 0\<rparr>"

definition example_bars :: "bar list" where
  "example_bars =
     [example_bar 10 10, example_bar 10.5 9.5, example_bar 12 9.2, example_bar 13 8]"

definition flat_bars :: "bar list" where
  "flat_bars = replicate 12 (example_bar 10 10)"

section \<open>The horizon as the specification words it\<close>

text \<open>
  The specification rounds the scaled baseline horizon where the code truncates it.
  The rounding is a parameter here, so that the rule can be read with rounding half up
  (\<open>round\<close>) or half to even (\<open>round_half_even\<close>), as Python's \<^verbatim>\<open>round\<close> does.
\<close>

definition spec_horizon :: "(real \<Rightarrow> int) \<Rightarrow> config \<Rightarrow> pyfloat \<Rightarrow> int" where
  "spec_horizon rnd cfg vr =
     (if fgt vr (Fin 1.5) then
        max (MIN_HORIZON_DAYS cfg) (rnd (of_int (MAX_HORIZON_DAYS cfg) * 0.5))
      else if fgt vr (Fin 1.2) then
        max (MIN_HORIZON_DAYS cfg) (rnd (of_int (MAX_HORIZON_DAYS cfg) * 0.7))
      else if flt vr (Fin 0.8) then
        min (rnd (of_int (MAX_HORIZON_DAYS cfg) * 1.3)) 13
      else MAX_HORIZON_DAYS cfg)"

text \<open>Two edits of the module constants: a baseline horizon of 11, and a baseline
  horizon of 2 below the floor of 3.\<close>

definition config_horizon_11 :: config where
  "config_horizon_11 = module_config\<lparr>MAX_HORIZON_DAYS := 11\<rparr>"

definition config_inverted :: config where
  "config_inverted = module_config\<lparr>MAX_HORIZON_DAYS := 2\<rparr>"

section \<open>The two records the signal loop builds\<close>

definition long_signal :: "config \<Rightarrow> bar \<Rightarrow> pyfloat \<Rightarrow> pyfloat \<Rightarrow> signal" where
  "long_signal cfg row p rr =
     \<lparr>timestamp = time row, signal_symbol = symbol row, direction = LONG,
      confidence = p, prob_long = p, entry_price = close row,
      tp_price = fadd (close row) (fmul (TP_ATR_MULT cfg) (atr row)),
      sl_price = fsub (close row) (fmul (SL_ATR_MULT cfg) (atr row)),
      signal_atr = atr row, risk_reward_ratio = rr\<rparr>"

definition short_signal :: "config \<Rightarrow> bar \<Rightarrow> pyfloat \<Rightarrow> pyfloat \<Rightarrow> signal" where
  "short_signal cfg row p rr =
     \<lparr>timestamp = time row, signal_symbol = symbol row, direction = SHORT,
      confidence = fsub (Fin 1) p, prob_long = p, entry_price = close row,
      tp_price = fsub (close row) (fmul (TP_ATR_MULT cfg) (atr row)),
      sl_price = fadd (close row) (fmul (SL_ATR_MULT cfg) (atr row)),
      signal_atr = atr row, risk_reward_ratio = rr\<rparr>"

section \<open>Example rows for signal generation\<close>

definition signal_bar :: bar where
  "signal_bar =
     \<lparr>time = 7, symbol = ''EURUSD'', close = Fin 10, high = Fin 10.5, low = Fin 9.5,
      atr = Fin 0.5, vol_ratio = Fin 1, trend_strength = Fin 35\<rparr>"

definition example_frames :: "(bar \<times> pyfloat) list list" where
  "example_frames =
     [[(signal_bar, Fin 0.82)], [(signal_bar, Fin 0.55), (signal_bar, Fin 0.25)]]"

section \<open>Example frames with missing values\<close>

definition regime_nan_frame :: dataframe where
  "regime_nan_frame =
     \<lparr>rows =
        [(example_bar 10 10)\<lparr>time := 1, vol_ratio := NaN, trend_strength := NaN\<rparr>,
         (example_bar 12 9.5)\<lparr>time := 2\<rparr>],
      has_vol_ratio = True, has_trend_strength = True\<rparr>"

definition missing_atr_frame :: dataframe where
  "missing_atr_frame =
     \<lparr>rows =
        [(example_bar 10 10)\<lparr>time := 1, atr := NaN\<rparr>,
         (example_bar 10 10)\<lparr>time := 2, atr := Fin 0\<rparr>,
         (example_bar 12 8)\<lparr>time := 3\<rparr>],
      has_vol_ratio = True, has_trend_strength = True\<rparr>"

definition inf_atr_bar :: bar where
  "inf_atr_bar = signal_bar\<lparr>atr := PInf\<rparr>"

section \<open>Properties\<close>

subsection \<open>The forward scan\<close>

lemma check_long_eq:
  "check_long tpl sll j b hl = or_else hl (map_option (Pair j) (long_kind tpl sll b))"
  by (cases hl) (auto simp: check_long_def or_else_def long_kind_def)

lemma check_short_eq:
  "check_short tps sls j b hs = or_else hs (map_option (Pair j) (short_kind tps sls b))"
  by (cases hs) (auto simp: check_short_def or_else_def short_kind_def)

lemma first_hit_upt:
  "j < e \<Longrightarrow> first_hit f bs [j ..< e] =
     or_else (map_option (Pair j) (f (bs ! j))) (first_hit f bs [Suc j ..< e])"
  by (simp add: upt_conv_Cons or_else_def split: option.splits)

lemma or_else_assoc: "or_else (or_else a b) c = or_else a (or_else b c)"
  by (cases a) (auto simp: or_else_def)

lemma or_else_Some: "or_else (Some x) h = Some x"
  by (simp add: or_else_def)

lemma or_else_None: "or_else None h = h"
  by (simp add: or_else_def)

lemma scan_forward_eq:
  "e \<le> int (length bs) \<Longrightarrow>
   scan_forward bs tpl sll tps sls j e hl hs =
     Inr (or_else hl (first_hit (long_kind tpl sll) bs [j ..< nat e]),
          or_else hs (first_hit (short_kind tps sls) bs [j ..< nat e]))"
proof (induction bs tpl sll tps sls j e hl hs rule: scan_forward.induct)
  case (1 bs tpl sll tps sls j e hl hs)
  show ?case
  proof (cases "int j < e")
    case False
    then have "[j ..< nat e] = []" by simp
    with False show ?thesis
      by (subst scan_forward.simps) (simp add: or_else_def split: option.splits)
  next
    case True
    then have jlt: "j < nat e" and jn: "j < length bs" using "1.prems" by auto
    show ?thesis
    proof (cases "hl \<noteq> None \<and> hs \<noteq> None")
      case True
      with \<open>int j < e\<close> show ?thesis
        by (subst scan_forward.simps) (auto simp: or_else_def)
    next
      case still_open: False
      have row: "row_at bs j = Inr (bs ! j)" using jn by (simp add: row_at_def)
      let ?hl' = "check_long tpl sll j (bs ! j) hl"
      let ?hs' = "check_short tps sls j (bs ! j) hs"
      show ?thesis
      proof (cases "?hl' \<noteq> None \<and> ?hs' \<noteq> None")
        case True
        then obtain x y where x: "?hl' = Some x" and y: "?hs' = Some y" by auto
        have "scan_forward bs tpl sll tps sls j e hl hs = Inr (?hl', ?hs')"
          using \<open>int j < e\<close> still_open row True
          by (subst scan_forward.simps) (auto simp: Let_def simp del: not_None_eq)
        moreover have "or_else hl (first_hit (long_kind tpl sll) bs [j ..< nat e]) = ?hl'"
          using x by (simp add: first_hit_upt[OF jlt] or_else_assoc[symmetric]
              check_long_eq[symmetric] or_else_Some)
        moreover have "or_else hs (first_hit (short_kind tps sls) bs [j ..< nat e]) = ?hs'"
          using y by (simp add: first_hit_upt[OF jlt] or_else_assoc[symmetric]
              check_short_eq[symmetric] or_else_Some)
        ultimately show ?thesis by simp
      next
        case False
        have "scan_forward bs tpl sll tps sls j e hl hs =
                scan_forward bs tpl sll tps sls (Suc j) e ?hl' ?hs'"
          using \<open>int j < e\<close> still_open row False
          by (subst scan_forward.simps) (auto simp: Let_def simp del: not_None_eq)
        also have "\<dots> = Inr (or_else ?hl' (first_hit (long_kind tpl sll) bs [Suc j ..< nat e]),
                            or_else ?hs' (first_hit (short_kind tps sls) bs [Suc j ..< nat e]))"
          using "1.IH"[OF \<open>int j < e\<close> still_open row refl refl False "1.prems"] .
        finally show ?thesis
          by (simp add: first_hit_upt[OF jlt] or_else_assoc[symmetric]
              check_long_eq[symmetric] check_short_eq[symmetric])
      qed
    qed
  qed
qed

lemma filter_range_upt:
  "b \<le> n \<Longrightarrow> filter (\<lambda>j. a \<le> j \<and> j < b) [0 ..< n] = [a ..< b]"
proof (rule sorted_distinct_set_unique)
  show "sorted (filter (\<lambda>j. a \<le> j \<and> j < b) [0 ..< n])"
    by (rule sorted_wrt_filter) simp
qed auto

lemma spec_window_eq:
  "spec_window i h n = [i + 1 ..< nat (window_end i h n)]"
proof -
  have "spec_window i h n = filter (\<lambda>j. i + 1 \<le> j \<and> j < nat (window_end i h n)) [0 ..< n]"
    unfolding spec_window_def window_end_def
    by (rule filter_cong) auto
  also have "\<dots> = [i + 1 ..< nat (window_end i h n)]"
    by (rule filter_range_upt) (simp add: window_end_def)
  finally show ?thesis .
qed


lemma first_hit_cong:
  "(\<And>j. j \<in> set js \<Longrightarrow> bs ! j = bs' ! j) \<Longrightarrow> first_hit f bs js = first_hit f bs' js"
  by (induction js) (auto split: option.splits)

lemma spec_window_bounds:
  "j \<in> set (spec_window i h n) \<Longrightarrow> i < j \<and> j < n \<and> int j \<le> int i + h"
  by (auto simp: spec_window_def)

lemma spec_window_sorted: "sorted (spec_window i h n) \<and> distinct (spec_window i h n)"
  by (simp add: spec_window_eq)

text \<open>
  C2. The scan started at an entry index \<open>i\<close> with horizon \<open>h\<close> returns, for the long
  and for the short hypothesis independently, the index and kind of the first bar that
  touches a barrier among the indices \<open>i + 1\<close> through \<open>min (i + h) last_index\<close>
  taken in increasing order, and \<open>None\<close> when no bar of the window does. It raises no
  index error, its result does not change when the entry bar is replaced, and every
  index of the window lies after the entry and inside the series. The rows the labeling
  scans are sorted by time, so the order of the indices is the order of time.
\<close>

theorem scan_window_first_hits:
  "scan_forward bs tpl sll tps sls (i + 1) (window_end i h (length bs)) None None =
     Inr (first_hit (long_kind tpl sll) bs (spec_window i h (length bs)),
          first_hit (short_kind tps sls) bs (spec_window i h (length bs)))
   \<and> scan_forward (bs[i := b']) tpl sll tps sls (i + 1) (window_end i h (length bs)) None None =
     scan_forward bs tpl sll tps sls (i + 1) (window_end i h (length bs)) None None
   \<and> sorted (spec_window i h (length bs))
   \<and> (\<forall>j \<in> set (spec_window i h (length bs)). i < j \<and> j < length bs \<and> int j \<le> int i + h)
   \<and> sorted (map time (sorted_rows df))"
proof -
  have le: "window_end i h (length bs) \<le> int (length bs)"
    by (simp add: window_end_def)
  have eq: "scan_forward xs tpl sll tps sls (i + 1) (window_end i h (length bs)) None None =
     Inr (first_hit (long_kind tpl sll) xs (spec_window i h (length bs)),
          first_hit (short_kind tps sls) xs (spec_window i h (length bs)))"
    if "length xs = length bs" for xs
    using scan_forward_eq[of "window_end i h (length bs)" xs tpl sll tps sls "i + 1" None None]
      le that
    by (simp add: or_else_None spec_window_eq)
  have same: "first_hit f (bs[i := b']) (spec_window i h (length bs)) =
              first_hit f bs (spec_window i h (length bs))" for f
    by (rule first_hit_cong) (auto dest: spec_window_bounds)
  have "sorted (map time (sorted_rows df))"
    by (simp add: sorted_rows_def)
  then show ?thesis
    using eq[of bs] eq[of "bs[i := b']"] same spec_window_sorted spec_window_bounds
    by auto
qed

theorem scan_window_first_hits_witness:
  "scan_forward example_bars (Fin 11.8) (Fin 9) (Fin 8.2) (Fin 11) 1
      (window_end 0 2 (length example_bars)) None None = Inr (Some (2, TP), Some (2, SL))
   \<and> set (spec_window 0 2 (length example_bars)) = {1, 2}"
proof -
  have l: "first_hit (long_kind (Fin 11.8) (Fin 9)) example_bars
             (spec_window 0 2 (length example_bars)) = Some (2, TP)"
    by code_simp
  have s: "first_hit (short_kind (Fin 8.2) (Fin 11)) example_bars
             (spec_window 0 2 (length example_bars)) = Some (2, SL)"
    by code_simp
  have w: "spec_window 0 2 (length example_bars) = [1, 2]"
    by code_simp
  show ?thesis
    using scan_window_first_hits[of example_bars "Fin 11.8" "Fin 9" "Fin 8.2" "Fin 11" 0 2]
      l s w
    by simp
qed

subsection \<open>The label of one candle\<close>

lemma first_hit_None:
  "(\<And>j. j \<in> set js \<Longrightarrow> f (bs ! j) = None) \<Longrightarrow> first_hit f bs js = None"
  by (induction js) auto

lemma label_at_eq:
  assumes "i < length bs" and "\<not> atr_missing (atr (bs ! i))"
  shows "label_at cfg hv ht bs i =
     Inr (determine_label
       (first_hit (long_kind (tp_long cfg hv ht (bs ! i)) (sl_long cfg (bs ! i))) bs
          (spec_window i (horizon cfg (regime_vol hv (bs ! i))) (length bs)))
       (first_hit (short_kind (tp_short cfg hv ht (bs ! i)) (sl_short cfg (bs ! i))) bs
          (spec_window i (horizon cfg (regime_vol hv (bs ! i))) (length bs))))"
proof (cases "i + 1 \<ge> length bs")
  case True
  then have "nat (window_end i (horizon cfg (regime_vol hv (bs ! i))) (length bs)) \<le> i + 1"
    by (simp add: window_end_def)
  then have "spec_window i (horizon cfg (regime_vol hv (bs ! i))) (length bs) = []"
    by (simp add: spec_window_eq)
  with True assms show ?thesis
    by (simp add: label_at_def row_at_def determine_label_def)
next
  case False
  have le: "window_end i h (length bs) \<le> int (length bs)" for h
    by (simp add: window_end_def)
  show ?thesis
    using False assms
    by (simp add: label_at_def row_at_def Let_def scan_forward_eq[OF le] or_else_None
        spec_window_eq)
qed

lemma label_at_skip:
  "i < length bs \<Longrightarrow> atr_missing (atr (bs ! i)) \<Longrightarrow> label_at cfg hv ht bs i = Inr 0"
  by (simp add: label_at_def row_at_def)


text \<open>
  C6. Each outcome is scored \<open>+1\<close> for a take-profit hit, \<open>-1\<close> for a stop-loss hit and
  \<open>0\<close> for no hit; the label is \<open>+1\<close> when the long score is the greater, \<open>-1\<close> when
  the short score is the greater, and \<open>0\<close> when the two are equal. A candle whose window
  holds no bar that reaches any of its four barriers gets the label \<open>0\<close>.
\<close>

theorem label_resolution:
  "outcome None = 0 \<and> outcome (Some (j, TP)) = 1 \<and> outcome (Some (j, SL)) = - 1
   \<and> determine_label hit_long hit_short =
       (if outcome hit_long > outcome hit_short then 1
        else if outcome hit_short > outcome hit_long then - 1 else 0)
   \<and> (i < length bs \<and>
        (\<forall>k \<in> set (spec_window i (horizon cfg (regime_vol hv (bs ! i))) (length bs)).
           \<not> fge (high (bs ! k)) (tp_long cfg hv ht (bs ! i)) \<and>
           \<not> fle (low (bs ! k)) (sl_long cfg (bs ! i)) \<and>
           \<not> fle (low (bs ! k)) (tp_short cfg hv ht (bs ! i)) \<and>
           \<not> fge (high (bs ! k)) (sl_short cfg (bs ! i)))
      \<longrightarrow> label_at cfg hv ht bs i = Inr 0)"
proof -
  have a: "outcome None = 0 \<and> outcome (Some (j, TP)) = 1 \<and> outcome (Some (j, SL)) = - 1"
    by (simp add: outcome_def)
  have b: "determine_label hit_long hit_short =
       (if outcome hit_long > outcome hit_short then 1
        else if outcome hit_short > outcome hit_long then - 1 else 0)"
    by (simp add: determine_label_def Let_def outcome_def)
  have c: "label_at cfg hv ht bs i = Inr 0"
    if i: "i < length bs"
      and flat: "\<forall>k \<in> set (spec_window i (horizon cfg (regime_vol hv (bs ! i))) (length bs)).
           \<not> fge (high (bs ! k)) (tp_long cfg hv ht (bs ! i)) \<and>
           \<not> fle (low (bs ! k)) (sl_long cfg (bs ! i)) \<and>
           \<not> fle (low (bs ! k)) (tp_short cfg hv ht (bs ! i)) \<and>
           \<not> fge (high (bs ! k)) (sl_short cfg (bs ! i))"
  proof (cases "atr_missing (atr (bs ! i))")
    case True
    with i show ?thesis by (rule label_at_skip)
  next
    case False
    have "first_hit (long_kind (tp_long cfg hv ht (bs ! i)) (sl_long cfg (bs ! i))) bs
            (spec_window i (horizon cfg (regime_vol hv (bs ! i))) (length bs)) = None"
      using flat by (intro first_hit_None) (simp add: long_kind_def)
    moreover have "first_hit (short_kind (tp_short cfg hv ht (bs ! i)) (sl_short cfg (bs ! i))) bs
            (spec_window i (horizon cfg (regime_vol hv (bs ! i))) (length bs)) = None"
      using flat by (intro first_hit_None) (simp add: short_kind_def)
    ultimately show ?thesis
      using label_at_eq[OF i False] by (simp add: determine_label_def)
  qed
  from a b c show ?thesis by blast
qed

theorem label_resolution_witness:
  "determine_label (Some (2, TP)) None = 1
   \<and> determine_label (Some (2, SL)) (Some (3, TP)) = - 1
   \<and> determine_label (Some (2, TP)) (Some (2, TP)) = 0
   \<and> set (spec_window 0 (horizon module_config (regime_vol True (flat_bars ! 0)))
            (length flat_bars)) = {1, 2, 3, 4, 5, 6, 7, 8, 9, 10}
   \<and> label_at module_config True True flat_bars 0 = Inr 0"
proof -
  have i: "0 < length flat_bars" by code_simp
  have flat: "\<forall>k \<in> set (spec_window 0 (horizon module_config (regime_vol True (flat_bars ! 0)))
                 (length flat_bars)).
           \<not> fge (high (flat_bars ! k)) (tp_long module_config True True (flat_bars ! 0)) \<and>
           \<not> fle (low (flat_bars ! k)) (sl_long module_config (flat_bars ! 0)) \<and>
           \<not> fle (low (flat_bars ! k)) (tp_short module_config True True (flat_bars ! 0)) \<and>
           \<not> fge (high (flat_bars ! k)) (sl_short module_config (flat_bars ! 0))"
    by code_simp
  have w: "set (spec_window 0 (horizon module_config (regime_vol True (flat_bars ! 0)))
            (length flat_bars)) = {1, 2, 3, 4, 5, 6, 7, 8, 9, 10}"
    by code_simp
  have o: "outcome None = 0" "outcome (Some (2, TP)) = 1" "outcome (Some (2, SL)) = - 1"
     "outcome (Some (3, TP)) = 1"
    by (simp_all add: outcome_def)
  show ?thesis
    using label_resolution[of 2 "Some (2, TP)" None 0 flat_bars module_config True True]
      label_resolution[of 2 "Some (2, SL)" "Some (3, TP)" 0 flat_bars module_config True True]
      label_resolution[of 2 "Some (2, TP)" "Some (2, TP)" 0 flat_bars module_config True True]
      i flat w o
    by simp
qed

subsection \<open>Profit priority on one bar\<close>

lemma first_hit_SomeD:
  "first_hit f bs js = Some (k, x) \<Longrightarrow> k \<in> set js \<and> f (bs ! k) = Some x"
  by (induction js) (auto split: option.splits)

lemma first_hit_first:
  "k \<in> set js \<Longrightarrow> sorted js \<Longrightarrow> distinct js \<Longrightarrow> f (bs ! k) = Some x \<Longrightarrow>
   (\<And>m. m \<in> set js \<Longrightarrow> m < k \<Longrightarrow> f (bs ! m) = None) \<Longrightarrow>
   first_hit f bs js = Some (k, x)"
proof (induction js)
  case Nil
  then show ?case by simp
next
  case (Cons a js)
  show ?case
  proof (cases "a = k")
    case True
    with Cons.prems show ?thesis by simp
  next
    case False
    with Cons.prems have "k \<in> set js" and "a < k" by auto
    with Cons show ?thesis by auto
  qed
qed

text \<open>
  C5. A bar on which both the take-profit and the stop-loss condition of a hypothesis
  hold resolves a still open hypothesis as a take-profit hit, for the long side
  (\<open>high \<ge> tp_long\<close> and \<open>low \<le> sl_long\<close>) and for the short side (\<open>low \<le> tp_short\<close>
  and \<open>high \<ge> sl_short\<close>). In the result of the scan, a stop-loss hit is never
  recorded at a bar whose take-profit condition holds, and when the first bar of the
  window that touches a barrier of a hypothesis satisfies both conditions, the
  hypothesis is resolved there as a take-profit hit.
\<close>

theorem profit_priority:
  "(fge (high b) tpl \<and> fle (low b) sll \<longrightarrow> check_long tpl sll j b None = Some (j, TP))
   \<and> (fle (low b) tps \<and> fge (high b) sls \<longrightarrow> check_short tps sls j b None = Some (j, TP))
   \<and> (\<forall>hl hs k.
        scan_forward bs tpl sll tps sls (i + 1) (window_end i h (length bs)) None None
          = Inr (hl, hs) \<longrightarrow>
        (hl = Some (k, SL) \<longrightarrow> \<not> fge (high (bs ! k)) tpl) \<and>
        (hs = Some (k, SL) \<longrightarrow> \<not> fle (low (bs ! k)) tps) \<and>
        (k \<in> set (spec_window i h (length bs)) \<and>
         (\<forall>m \<in> set (spec_window i h (length bs)). m < k \<longrightarrow> long_kind tpl sll (bs ! m) = None) \<and>
         fge (high (bs ! k)) tpl \<and> fle (low (bs ! k)) sll \<longrightarrow> hl = Some (k, TP)) \<and>
        (k \<in> set (spec_window i h (length bs)) \<and>
         (\<forall>m \<in> set (spec_window i h (length bs)). m < k \<longrightarrow> short_kind tps sls (bs ! m) = None) \<and>
         fle (low (bs ! k)) tps \<and> fge (high (bs ! k)) sls \<longrightarrow> hs = Some (k, TP)))"
proof -
  let ?w = "spec_window i h (length bs)"
  have scan: "scan_forward bs tpl sll tps sls (i + 1) (window_end i h (length bs)) None None =
     Inr (first_hit (long_kind tpl sll) bs ?w, first_hit (short_kind tps sls) bs ?w)"
    using scan_forward_eq[of "window_end i h (length bs)" bs tpl sll tps sls "i + 1" None None]
    by (simp add: window_end_def or_else_None spec_window_eq)
  have sd: "sorted ?w" "distinct ?w" by (simp_all add: spec_window_eq)
  have l_sl: "\<not> fge (high (bs ! k)) tpl" if "first_hit (long_kind tpl sll) bs ?w = Some (k, SL)" for k
    using first_hit_SomeD[OF that] by (auto simp: long_kind_def split: if_splits)
  have s_sl: "\<not> fle (low (bs ! k)) tps" if "first_hit (short_kind tps sls) bs ?w = Some (k, SL)" for k
    using first_hit_SomeD[OF that] by (auto simp: short_kind_def split: if_splits)
  have l_tp: "first_hit (long_kind tpl sll) bs ?w = Some (k, TP)"
    if "k \<in> set ?w" "\<forall>m \<in> set ?w. m < k \<longrightarrow> long_kind tpl sll (bs ! m) = None"
      "fge (high (bs ! k)) tpl" for k
    using that sd by (intro first_hit_first) (auto simp: long_kind_def)
  have s_tp: "first_hit (short_kind tps sls) bs ?w = Some (k, TP)"
    if "k \<in> set ?w" "\<forall>m \<in> set ?w. m < k \<longrightarrow> short_kind tps sls (bs ! m) = None"
      "fle (low (bs ! k)) tps" for k
    using that sd by (intro first_hit_first) (auto simp: short_kind_def)
  have step: "(fge (high b) tpl \<and> fle (low b) sll \<longrightarrow> check_long tpl sll j b None = Some (j, TP))
   \<and> (fle (low b) tps \<and> fge (high b) sls \<longrightarrow> check_short tps sls j b None = Some (j, TP))"
    by (simp add: check_long_def check_short_def)
  show ?thesis
  proof (intro conjI allI impI)
    show "check_long tpl sll j b None = Some (j, TP)" if "fge (high b) tpl \<and> fle (low b) sll"
      using that by (simp add: check_long_def)
    show "check_short tps sls j b None = Some (j, TP)" if "fle (low b) tps \<and> fge (high b) sls"
      using that by (simp add: check_short_def)
  next
    fix hl hs k
    assume "scan_forward bs tpl sll tps sls (i + 1) (window_end i h (length bs)) None None
          = Inr (hl, hs)"
    then have hl: "hl = first_hit (long_kind tpl sll) bs ?w"
      and hs: "hs = first_hit (short_kind tps sls) bs ?w"
      unfolding scan by simp_all
    show "\<not> fge (high (bs ! k)) tpl" if "hl = Some (k, SL)"
      using that l_sl hl by simp
    show "\<not> fle (low (bs ! k)) tps" if "hs = Some (k, SL)"
      using that s_sl hs by simp
    show "hl = Some (k, TP)"
      if "k \<in> set ?w \<and>
         (\<forall>m \<in> set ?w. m < k \<longrightarrow> long_kind tpl sll (bs ! m) = None) \<and>
         fge (high (bs ! k)) tpl \<and> fle (low (bs ! k)) sll"
      using that l_tp[of k] hl by simp
    show "hs = Some (k, TP)"
      if "k \<in> set ?w \<and>
         (\<forall>m \<in> set ?w. m < k \<longrightarrow> short_kind tps sls (bs ! m) = None) \<and>
         fle (low (bs ! k)) tps \<and> fge (high (bs ! k)) sls"
      using that s_tp[of k] hs by simp
  qed
qed



theorem profit_priority_witness:
  "fge (high (example_bars ! 2)) (Fin 11.8) \<and> fle (low (example_bars ! 2)) (Fin 9.3)
   \<and> fle (low (example_bars ! 2)) (Fin 9.3) \<and> fge (high (example_bars ! 2)) (Fin 11.8)
   \<and> check_long (Fin 11.8) (Fin 9.3) 2 (example_bars ! 2) None = Some (2, TP)
   \<and> check_short (Fin 9.3) (Fin 11.8) 2 (example_bars ! 2) None = Some (2, TP)
   \<and> scan_forward example_bars (Fin 11.8) (Fin 9.3) (Fin 9.3) (Fin 11.8) (0 + 1)
        (window_end 0 2 (length example_bars)) None None = Inr (Some (2, TP), Some (2, TP))"
proof -
  let ?w = "spec_window 0 2 (length example_bars)"
  define hl where "hl = first_hit (long_kind (Fin 11.8) (Fin 9.3)) example_bars ?w"
  define hs where "hs = first_hit (short_kind (Fin 9.3) (Fin 11.8)) example_bars ?w"
  have a: "fge (high (example_bars ! 2)) (Fin 11.8) \<and> fle (low (example_bars ! 2)) (Fin 9.3)"
    by code_simp
  have a': "fle (low (example_bars ! 2)) (Fin 9.3) \<and> fge (high (example_bars ! 2)) (Fin 11.8)"
    using a by simp
  have k: "2 \<in> set ?w"
    by code_simp
  have el: "\<forall>m \<in> set ?w. m < 2 \<longrightarrow> long_kind (Fin 11.8) (Fin 9.3) (example_bars ! m) = None"
    by code_simp
  have es: "\<forall>m \<in> set ?w. m < 2 \<longrightarrow> short_kind (Fin 9.3) (Fin 11.8) (example_bars ! m) = None"
    by code_simp
  have r: "scan_forward example_bars (Fin 11.8) (Fin 9.3) (Fin 9.3) (Fin 11.8) (0 + 1)
        (window_end 0 2 (length example_bars)) None None = Inr (hl, hs)"
    using scan_forward_eq[of "window_end 0 2 (length example_bars)" example_bars
        "Fin 11.8" "Fin 9.3" "Fin 9.3" "Fin 11.8" "0 + 1" None None]
    by (simp add: hl_def hs_def window_end_def or_else_None spec_window_eq)
  note T = profit_priority[of "example_bars ! 2" "Fin 11.8" "Fin 9.3" 2 "Fin 9.3" "Fin 11.8"
      example_bars 0 2]
  note S = T[THEN conjunct2, THEN conjunct2, THEN spec, THEN spec, THEN spec, THEN mp, OF r]
  have l: "hl = Some (2, TP)"
    by (rule S[THEN conjunct2, THEN conjunct2, THEN conjunct1, THEN mp]) (intro conjI k el a[THEN conjunct1] a[THEN conjunct2])
  have s: "hs = Some (2, TP)"
    by (rule S[THEN conjunct2, THEN conjunct2, THEN conjunct2, THEN mp]) (intro conjI k es a[THEN conjunct1] a[THEN conjunct2])
  have cl: "check_long (Fin 11.8) (Fin 9.3) 2 (example_bars ! 2) None = Some (2, TP)"
    by (rule T[THEN conjunct1, THEN mp, OF a])
  have cs: "check_short (Fin 9.3) (Fin 11.8) 2 (example_bars ! 2) None = Some (2, TP)"
    by (rule T[THEN conjunct2, THEN conjunct1, THEN mp, OF a'])
  show ?thesis
    by (intro conjI a[THEN conjunct1] a[THEN conjunct2] cl cs r[unfolded l s])
qed

subsection \<open>Regime and barrier parameters\<close>

lemma current_vol_ratio_simps:
  "current_vol_ratio (Fin x) = Fin x" "current_vol_ratio PInf = PInf"
  "current_vol_ratio NInf = NInf" "current_vol_ratio NaN = Fin 1"
  by (simp_all add: current_vol_ratio_def isnan_def)

lemma current_trend_simps:
  "current_trend (Fin x) = Fin x" "current_trend PInf = PInf"
  "current_trend NInf = NInf" "current_trend NaN = Fin 0"
  by (simp_all add: current_trend_def isnan_def)

lemma fgt_current_vol_ratio:
  "1 \<le> c \<Longrightarrow> fgt (current_vol_ratio vr) (Fin c) = fgt vr (Fin c)"
  by (cases vr) (simp_all add: current_vol_ratio_simps fgt_def)

lemma flt_current_vol_ratio:
  "c \<le> 1 \<Longrightarrow> flt (current_vol_ratio vr) (Fin c) = flt vr (Fin c)"
  by (cases vr) (simp_all add: current_vol_ratio_simps)

lemma fgt_current_trend:
  "0 \<le> c \<Longrightarrow> fgt (current_trend ts) (Fin c) = fgt ts (Fin c)"
  by (cases ts) (simp_all add: current_trend_simps fgt_def)

lemmas regime_compare = fgt_current_vol_ratio flt_current_vol_ratio fgt_current_trend

lemma int_of_product_module_config:
  "int_of_product 10 (1 / 2) = 5" "int_of_product 10 (7 / 10) = 7"
  "int_of_product 10 (13 / 10) = 13"
  by code_simp+

lemma horizon_module_config:
  "horizon module_config v =
     (if fgt v (Fin 1.5) then 5 else if fgt v (Fin 1.2) then 7
      else if flt v (Fin 0.8) then 13 else 10)"
  by (simp add: horizon_def module_config_def int_of_product_module_config)

lemma spec_horizon_module_config:
  "spec_horizon round module_config v =
     (if fgt v (Fin 1.5) then 5 else if fgt v (Fin 1.2) then 7
      else if flt v (Fin 0.8) then 13 else 10)"
  by (simp add: spec_horizon_def module_config_def)

text \<open>
  C3, as the claim states it, fails: with a baseline horizon of 11 and a volatility
  ratio of 1.6 the code selects \<open>max 3 (int 5.5) = 5\<close>, where the claim's
  \<open>max 3 (round 5.5)\<close> is 6 under either rounding convention.
\<close>

theorem selector_round_counterexample:
  "horizon config_horizon_11 (current_vol_ratio (Fin 1.6)) = 5
   \<and> spec_horizon round config_horizon_11 (Fin 1.6) = 6
   \<and> spec_horizon round_half_even config_horizon_11 (Fin 1.6) = 6"
  by code_simp

text \<open>
  C3, amended. For every regime snapshot and configuration: the take-profit multiple is
  2.5 if the trend strength is above 30, else 1.5 if the volatility ratio is below 0.8,
  else the configured default; the stop-loss multiple is the configured default; the
  horizon is \<open>max min_horizon (int (H * 0.5))\<close> above a ratio of 1.5, else
  \<open>max min_horizon (int (H * 0.7))\<close> above 1.2, else \<open>min (int (H * 1.3)) 13\<close> below 0.8,
  else \<open>H\<close>, where \<open>int\<close> truncates the double product toward zero. A NaN regime
  value takes the last branch of each rule. With the constants of the module (1.8, 1.0,
  3 and 10) the truncated and the rounded horizons coincide.
\<close>

theorem selector_parameters:
  "tp_mult cfg (current_trend ts) (current_vol_ratio vr) =
     (if fgt ts (Fin 30) then Fin 2.5
      else if flt vr (Fin 0.8) then Fin 1.5
      else TP_ATR_MULT cfg)
   \<and> sl_mult cfg = SL_ATR_MULT cfg
   \<and> horizon cfg (current_vol_ratio vr) =
     (if fgt vr (Fin 1.5) then
        max (MIN_HORIZON_DAYS cfg) (int_of_product (MAX_HORIZON_DAYS cfg) 0.5)
      else if fgt vr (Fin 1.2) then
        max (MIN_HORIZON_DAYS cfg) (int_of_product (MAX_HORIZON_DAYS cfg) 0.7)
      else if flt vr (Fin 0.8) then
        min (int_of_product (MAX_HORIZON_DAYS cfg) 1.3) 13
      else MAX_HORIZON_DAYS cfg)
   \<and> TP_ATR_MULT module_config = Fin 1.8 \<and> SL_ATR_MULT module_config = Fin 1
   \<and> MAX_HORIZON_DAYS module_config = 10 \<and> MIN_HORIZON_DAYS module_config = 3
   \<and> horizon module_config (current_vol_ratio vr) = spec_horizon round module_config vr"
proof -
  have "horizon module_config (current_vol_ratio vr) = spec_horizon round module_config vr"
    by (simp add: horizon_module_config spec_horizon_module_config regime_compare)
  then show ?thesis
    by (simp add: tp_mult_def sl_mult_def horizon_def regime_compare
        module_config_def)
qed

theorem selector_parameters_witness:
  "tp_mult module_config (current_trend (Fin 35)) (current_vol_ratio (Fin 0.5)) = Fin 2.5
   \<and> tp_mult module_config (current_trend (Fin 10)) (current_vol_ratio (Fin 0.5)) = Fin 1.5
   \<and> tp_mult module_config (current_trend NaN) (current_vol_ratio NaN) = Fin 1.8
   \<and> sl_mult module_config = Fin 1
   \<and> horizon module_config (current_vol_ratio (Fin 1.6)) = 5
   \<and> horizon module_config (current_vol_ratio (Fin 1.3)) = 7
   \<and> horizon module_config (current_vol_ratio (Fin 0.5)) = 13
   \<and> horizon module_config (current_vol_ratio NaN) = 10"
proof -
  have t1: "tp_mult module_config (current_trend (Fin 35)) (current_vol_ratio (Fin 0.5)) = Fin 2.5"
    using selector_parameters[of module_config "Fin 35" "Fin 0.5"] by (simp add: fgt_def)
  have t2: "tp_mult module_config (current_trend (Fin 10)) (current_vol_ratio (Fin 0.5)) = Fin 1.5"
    using selector_parameters[of module_config "Fin 10" "Fin 0.5"] by (simp add: fgt_def)
  have t3: "tp_mult module_config (current_trend NaN) (current_vol_ratio NaN) = Fin 1.8
            \<and> sl_mult module_config = Fin 1"
    using selector_parameters[of module_config NaN NaN] by (simp add: fgt_def)
  have m: "MIN_HORIZON_DAYS module_config = 3" "MAX_HORIZON_DAYS module_config = 10"
    by (simp_all add: module_config_def)
  have h1: "horizon module_config (current_vol_ratio (Fin 1.6)) = 5"
    using selector_parameters[of module_config NaN "Fin 1.6"]
    by (simp add: fgt_def m int_of_product_module_config)
  have h2: "horizon module_config (current_vol_ratio (Fin 1.3)) = 7"
    using selector_parameters[of module_config NaN "Fin 1.3"]
    by (simp add: fgt_def m int_of_product_module_config)
  have h3: "horizon module_config (current_vol_ratio (Fin 0.5)) = 13"
    using selector_parameters[of module_config NaN "Fin 0.5"]
    by (simp add: fgt_def m int_of_product_module_config)
  have h4: "horizon module_config (current_vol_ratio NaN) = 10"
    using selector_parameters[of module_config NaN NaN]
    by (simp add: fgt_def m)
  show ?thesis
    by (intro conjI t1 t2 t3[THEN conjunct1] t3[THEN conjunct2] h1 h2 h3 h4)
qed


lemma bit_length_Suc_0: "bit_length (Suc 0) = Suc 0"
  by (simp add: bit_length.simps[of "Suc 0"] bit_length.simps[of 0])

lemma bit_length_lower: "0 < n \<Longrightarrow> 2 ^ (bit_length n - 1) \<le> n"
proof (induction n rule: bit_length.induct)
  case (1 n)
  show ?case
  proof (cases "n div 2 = 0")
    case True
    with "1.prems" have "n = 1" by (simp add: div_eq_0_iff)
    then show ?thesis by (simp add: bit_length_Suc_0)
  next
    case False
    then have "2 ^ (bit_length (n div 2) - 1) \<le> n div 2"
      using "1.IH" "1.prems" by simp
    moreover have "bit_length (n div 2) > 0"
      using False by (simp add: bit_length.simps[of "n div 2"])
    ultimately have "2 ^ bit_length (n div 2) \<le> 2 * (n div 2)"
      by (cases "bit_length (n div 2)") simp_all
    then show ?thesis
      using "1.prems" by (simp add: bit_length.simps[of n])
  qed
qed

lemma bit_length_upper: "n < 2 ^ bit_length n"
proof (induction n rule: bit_length.induct)
  case (1 n)
  show ?case
  proof (cases "n = 0")
    case True
    then show ?thesis by simp
  next
    case False
    then have "n div 2 < 2 ^ bit_length (n div 2)" using "1.IH" by simp
    then have "n < 2 * 2 ^ bit_length (n div 2)" by linarith
    with False show ?thesis by (simp add: bit_length.simps[of n])
  qed
qed

lemma pow2_pos: "0 < pow2 k"
  by (simp add: pow2_def)

lemma pow2_binary_exponent_le:
  assumes "0 < x"
  shows "pow2 (binary_exponent x) \<le> x"
proof (cases "1 \<le> x")
  case True
  let ?n = "nat \<lfloor>x\<rfloor>"
  have n: "0 < ?n" using True by simp
  have "(2::real) ^ (bit_length ?n - 1) \<le> real ?n"
    using bit_length_lower[OF n] by (metis of_nat_le_iff of_nat_numeral of_nat_power)
  also have "\<dots> \<le> x" using True by simp
  finally have le: "(2::real) ^ (bit_length ?n - 1) \<le> x" .
  have "bit_length ?n > 0" using n by (simp add: bit_length.simps[of ?n])
  then have "nat (int (bit_length ?n) - 1) = bit_length ?n - 1"
       and "0 \<le> int (bit_length ?n) - 1" by simp_all
  with True le show ?thesis by (simp add: binary_exponent_def pow2_def)
next
  case False
  let ?m = "nat (\<lceil>1 / x\<rceil> - 1)"
  have inv: "1 < 1 / x" using False assms by simp
  then have c: "2 \<le> \<lceil>1 / x\<rceil>" by linarith
  have "1 / x \<le> of_int \<lceil>1 / x\<rceil>" by simp
  also have "of_int \<lceil>1 / x\<rceil> = real ?m + 1"
  proof -
    have "real ?m = of_int (\<lceil>1 / x\<rceil> - 1)" using c by (intro of_nat_nat) linarith
    then show ?thesis by simp
  qed
  also have "real ?m + 1 \<le> 2 ^ bit_length ?m"
  proof -
    have "Suc ?m \<le> 2 ^ bit_length ?m" by (rule Suc_leI) (rule bit_length_upper)
    then have "real (Suc ?m) \<le> real (2 ^ bit_length ?m)" by (rule of_nat_mono)
    then show ?thesis by simp
  qed
  finally have "1 / x \<le> 2 ^ bit_length ?m" .
  then have "1 / 2 ^ bit_length ?m \<le> x"
    using assms by (simp add: field_simps)
  moreover have "bit_length ?m > 0" using c by (simp add: bit_length.simps[of ?m])
  ultimately show ?thesis
    using False by (simp add: binary_exponent_def pow2_def)
qed

lemma round_half_even_upper: "of_int (round_half_even y) \<le> y + 1 / 2"
  unfolding round_half_even_def Let_def by (simp; linarith)

lemma round_double_upper:
  assumes "0 < x"
  shows "round_double x \<le> x + x / 2 ^ 53"
proof -
  define u where "u = pow2 (binary_exponent \<bar>x\<bar>) / 2 ^ 52"
  have u0: "0 < u" by (simp add: u_def pow2_pos)
  have ux: "u \<le> x / 2 ^ 52"
    using pow2_binary_exponent_le[OF assms] assms by (simp add: u_def divide_right_mono)
  have "round_double x = of_int (round_half_even (x / u)) * u"
    using assms by (simp add: round_double_def Let_def u_def)
  also have "\<dots> \<le> (x / u + 1 / 2) * u"
    using round_half_even_upper[of "x / u"] u0 by (simp add: mult_right_mono)
  also have "\<dots> = x + u / 2" using u0 by (simp add: field_simps)
  also have "\<dots> \<le> x + x / 2 ^ 53" using ux by simp
  finally show ?thesis .
qed

lemma round_double_nonneg: "0 \<le> x \<Longrightarrow> 0 \<le> round_double x"
proof -
  assume x: "0 \<le> x"
  have "0 \<le> round_half_even y" if "0 \<le> y" for y :: real
    using that unfolding round_half_even_def Let_def by (simp; linarith)
  then show ?thesis
    using x by (simp add: round_double_def Let_def pow2_pos less_imp_le)
qed

lemma int_of_product_half_le:
  assumes "0 \<le> h"
  shows "int_of_product h 0.5 \<le> h"
proof (cases "h = 0")
  case True
  then show ?thesis by (simp add: int_of_product_def round_double_def trunc_zero_def)
next
  case False
  with assms have h: "0 < (of_int h :: real)" by simp
  define y where "y = round_double (of_int h)"
  have y0: "0 \<le> y" using h by (simp add: y_def round_double_nonneg)
  have yu: "y \<le> of_int h + of_int h / 2 ^ 53"
    unfolding y_def by (rule round_double_upper[OF h])
  have half: "round_double (1 / 2) = 1 / 2" by code_simp
  define z where "z = round_double (y / 2)"
  have z0: "0 \<le> z" using y0 by (simp add: z_def round_double_nonneg)
  have "z \<le> of_int h"
  proof (cases "y = 0")
    case True
    then show ?thesis using h by (simp add: z_def round_double_def)
  next
    case False
    with y0 have p: "0 < y / 2" by simp
    have "z \<le> y / 2 + y / 2 / 2 ^ 53"
      unfolding z_def by (rule round_double_upper[OF p])
    also have "\<dots> = y * ((1 + 1 / 2 ^ 53) / 2)" by (simp add: field_simps)
    also have "\<dots> \<le> (of_int h * (1 + 1 / 2 ^ 53)) * ((1 + 1 / 2 ^ 53) / 2)"
      using yu by (intro mult_right_mono) (simp_all add: field_simps)
    also have "\<dots> = of_int h * ((1 + 1 / 2 ^ 53) * (1 + 1 / 2 ^ 53) / 2)" by simp
    also have "\<dots> \<le> of_int h * 1"
      using h by (intro mult_left_mono) simp_all
    finally show ?thesis by simp
  qed
  then have "\<lfloor>z\<rfloor> \<le> h" by (simp add: floor_le_iff)
  then show ?thesis
    using z0 by (simp add: int_of_product_def half z_def[symmetric] y_def[symmetric] trunc_zero_def)
qed


text \<open>
  C9, as the claim states it, fails for a configuration whose floor exceeds the
  baseline: with a floor of 3 and a baseline of 2 the horizon is 2 at a volatility ratio
  of 1.0 and 3 at a ratio of 1.6.
\<close>

theorem horizon_monotone_counterexample:
  "horizon config_inverted (current_vol_ratio (Fin 1.0)) = 2
   \<and> horizon config_inverted (current_vol_ratio (Fin 1.6)) = 3
   \<and> MIN_HORIZON_DAYS config_inverted = 3 \<and> MAX_HORIZON_DAYS config_inverted = 2"
  by code_simp

text \<open>
  C9, amended. For every configuration with a baseline horizon that is not negative and
  a floor that does not exceed it, the horizon selected at a volatility ratio of 1.6 is
  at most the horizon selected at a ratio of 1.0; the trend strength plays no part in
  the horizon.
\<close>

theorem horizon_monotone:
  assumes "0 \<le> MAX_HORIZON_DAYS cfg" and "MIN_HORIZON_DAYS cfg \<le> MAX_HORIZON_DAYS cfg"
  shows "horizon cfg (current_vol_ratio (Fin 1.6)) \<le> horizon cfg (current_vol_ratio (Fin 1.0))"
  using assms int_of_product_half_le[of "MAX_HORIZON_DAYS cfg"]
  by (simp add: horizon_def fgt_def current_vol_ratio_simps)

theorem horizon_monotone_witness:
  "0 \<le> MAX_HORIZON_DAYS module_config
   \<and> MIN_HORIZON_DAYS module_config \<le> MAX_HORIZON_DAYS module_config
   \<and> horizon module_config (current_vol_ratio (Fin 1.6)) = 5
   \<and> horizon module_config (current_vol_ratio (Fin 1.0)) = 10
   \<and> horizon module_config (current_vol_ratio (Fin 1.6))
       \<le> horizon module_config (current_vol_ratio (Fin 1.0))"
proof -
  have a: "0 \<le> MAX_HORIZON_DAYS module_config"
    and b: "MIN_HORIZON_DAYS module_config \<le> MAX_HORIZON_DAYS module_config"
    by (simp_all add: module_config_def)
  have v: "horizon module_config (current_vol_ratio (Fin 1.6)) = 5"
     "horizon module_config (current_vol_ratio (Fin 1.0)) = 10"
    by (simp_all add: horizon_module_config fgt_def current_vol_ratio_simps)
  show ?thesis
    using horizon_monotone[OF a b] a b v by simp
qed

subsection \<open>Signal generation\<close>

lemma signal_for_row_eq:
  assumes "\<not> atr_missing (atr row)"
    and "py_truediv (TP_ATR_MULT cfg) (SL_ATR_MULT cfg) = Inr rr"
  shows "signal_for_row cfg t row p =
     (if fge p t then Inr (Some (long_signal cfg row p rr))
      else if fle p (fsub (Fin 1) t) then Inr (Some (short_signal cfg row p rr))
      else Inr None)"
  using assms
  by (simp add: signal_for_row_def determine_direction_def atr_missing_def
      long_signal_def short_signal_def)

lemma signal_for_row_SomeD:
  assumes "signal_for_row cfg t row p = Inr (Some s)"
  shows "\<not> atr_missing (atr row) \<and>
     (\<exists>rr. py_truediv (TP_ATR_MULT cfg) (SL_ATR_MULT cfg) = Inr rr \<and>
       (fge p t \<and> s = long_signal cfg row p rr \<or>
        \<not> fge p t \<and> fle p (fsub (Fin 1) t) \<and> s = short_signal cfg row p rr))"
  using assms
  by (auto simp: signal_for_row_def determine_direction_def atr_missing_def
      long_signal_def short_signal_def Let_def split: if_splits sum.splits)

lemma rows_loop_invariant:
  assumes "\<forall>row p s. signal_for_row cfg t row p = Inr (Some s) \<longrightarrow> P s"
  shows "rows_loop cfg t rs acc = Inr sigs \<Longrightarrow> \<forall>s \<in> set acc. P s \<Longrightarrow> \<forall>s \<in> set sigs. P s"
proof (induction rs arbitrary: acc)
  case Nil
  then show ?case by simp
next
  case (Cons a rs)
  obtain row p where a: "a = (row, p)" by (cases a)
  show ?case
  proof (cases "signal_for_row cfg t row p")
    case (Inl e)
    with Cons.prems a show ?thesis by simp
  next
    case (Inr r)
    show ?thesis
    proof (cases r)
      case None
      with Inr Cons.prems a have "rows_loop cfg t rs acc = Inr sigs" by simp
      with Cons.IH Cons.prems(2) show ?thesis by blast
    next
      case (Some x)
      with Inr Cons.prems a have l: "rows_loop cfg t rs (acc @ [x]) = Inr sigs" by simp
      have "P x" using Inr Some assms by blast
      then have "\<forall>s \<in> set (acc @ [x]). P s" using Cons.prems(2) by auto
      with Cons.IH l show ?thesis by blast
    qed
  qed
qed

lemma symbols_loop_invariant:
  assumes "\<forall>row p s. signal_for_row cfg t row p = Inr (Some s) \<longrightarrow> P s"
  shows "symbols_loop cfg t fs acc = Inr sigs \<Longrightarrow> \<forall>s \<in> set acc. P s \<Longrightarrow> \<forall>s \<in> set sigs. P s"
proof (induction fs arbitrary: acc)
  case Nil
  then show ?case by simp
next
  case (Cons f fs)
  show ?case
  proof (cases "rows_loop cfg t f acc")
    case (Inl e)
    with Cons.prems show ?thesis by simp
  next
    case (Inr acc')
    with Cons.prems have l: "symbols_loop cfg t fs acc' = Inr sigs" by simp
    have "\<forall>s \<in> set acc'. P s"
      using rows_loop_invariant[OF assms Inr Cons.prems(2)] .
    with Cons.IH l show ?thesis by blast
  qed
qed

lemma generate_signals_invariant:
  assumes "generate_signals cfg t frames = Inr sigs"
    and "\<And>row p s. signal_for_row cfg t row p = Inr (Some s) \<Longrightarrow> P s"
    and "s \<in> set sigs"
  shows "P s"
proof -
  have "\<forall>row p s. signal_for_row cfg t row p = Inr (Some s) \<longrightarrow> P s"
    using assms(2) by blast
  from symbols_loop_invariant[OF this, of frames "[]" sigs] assms(1,3)
  show ?thesis by (simp add: generate_signals_def)
qed

lemma short_confidence:
  "fle p (fsub (Fin 1) t) \<Longrightarrow> fge (fsub (Fin 1) p) t"
  by (cases p; cases t) (auto simp: fsub_def fge_def)

lemma signal_bar_valid:
  "\<not> atr_missing (atr signal_bar)"
  "py_truediv (TP_ATR_MULT module_config) (SL_ATR_MULT module_config) = Inr (Fin 1.8)"
  by (simp_all add: signal_bar_def atr_missing_def isnan_def is_zero_def module_config_def)

text \<open>
  C4. For a row with a valid ATR and a non-zero stop-loss multiple: if the probability is
  at least the threshold the row gives a LONG signal with confidence \<open>p\<close>, target
  \<open>entry + tp_mult * atr\<close> and stop \<open>entry - sl_mult * atr\<close>; else if the probability
  is at most one minus the threshold it gives a SHORT signal with confidence \<open>1 - p\<close>,
  target \<open>entry - tp_mult * atr\<close> and stop \<open>entry + sl_mult * atr\<close>; else it gives no
  signal. The risk-reward ratio of every emitted signal is \<open>tp_mult / sl_mult\<close>.
\<close>

theorem signal_decision:
  assumes "\<not> atr_missing (atr row)"
    and "py_truediv (TP_ATR_MULT cfg) (SL_ATR_MULT cfg) = Inr rr"
  shows "signal_for_row cfg t row p =
     (if fge p t then
        Inr (Some \<lparr>timestamp = time row, signal_symbol = symbol row, direction = LONG,
              confidence = p, prob_long = p, entry_price = close row,
              tp_price = fadd (close row) (fmul (TP_ATR_MULT cfg) (atr row)),
              sl_price = fsub (close row) (fmul (SL_ATR_MULT cfg) (atr row)),
              signal_atr = atr row, risk_reward_ratio = rr\<rparr>)
      else if fle p (fsub (Fin 1) t) then
        Inr (Some \<lparr>timestamp = time row, signal_symbol = symbol row, direction = SHORT,
              confidence = fsub (Fin 1) p, prob_long = p, entry_price = close row,
              tp_price = fsub (close row) (fmul (TP_ATR_MULT cfg) (atr row)),
              sl_price = fadd (close row) (fmul (SL_ATR_MULT cfg) (atr row)),
              signal_atr = atr row, risk_reward_ratio = rr\<rparr>)
      else Inr None)
   \<and> generate_signals cfg t [[(row, p)]] =
     (case signal_for_row cfg t row p of
        Inl e \<Rightarrow> Inl e | Inr None \<Rightarrow> Inr [] | Inr (Some s) \<Rightarrow> Inr [s])
   \<and> (\<forall>frames sigs. generate_signals cfg t frames = Inr sigs \<longrightarrow>
        (\<forall>s \<in> set sigs. risk_reward_ratio s = rr))"
proof (intro conjI allI impI ballI)
  show eq: "signal_for_row cfg t row p =
     (if fge p t then
        Inr (Some \<lparr>timestamp = time row, signal_symbol = symbol row, direction = LONG,
              confidence = p, prob_long = p, entry_price = close row,
              tp_price = fadd (close row) (fmul (TP_ATR_MULT cfg) (atr row)),
              sl_price = fsub (close row) (fmul (SL_ATR_MULT cfg) (atr row)),
              signal_atr = atr row, risk_reward_ratio = rr\<rparr>)
      else if fle p (fsub (Fin 1) t) then
        Inr (Some \<lparr>timestamp = time row, signal_symbol = symbol row, direction = SHORT,
              confidence = fsub (Fin 1) p, prob_long = p, entry_price = close row,
              tp_price = fsub (close row) (fmul (TP_ATR_MULT cfg) (atr row)),
              sl_price = fadd (close row) (fmul (SL_ATR_MULT cfg) (atr row)),
              signal_atr = atr row, risk_reward_ratio = rr\<rparr>)
      else Inr None)"
    using signal_for_row_eq[OF assms, of t p]
    by (simp add: long_signal_def short_signal_def)
  show "generate_signals cfg t [[(row, p)]] =
     (case signal_for_row cfg t row p of
        Inl e \<Rightarrow> Inl e | Inr None \<Rightarrow> Inr [] | Inr (Some s) \<Rightarrow> Inr [s])"
    by (simp add: generate_signals_def split: sum.splits option.splits)
next
  fix frames sigs s
  assume g: "generate_signals cfg t frames = Inr sigs" and s: "s \<in> set sigs"
  show "risk_reward_ratio s = rr"
  proof (rule generate_signals_invariant[OF g _ s])
    fix row' p' s'
    assume "signal_for_row cfg t row' p' = Inr (Some s')"
    from signal_for_row_SomeD[OF this] assms(2)
    show "risk_reward_ratio s' = rr"
      by (auto simp: long_signal_def short_signal_def)
  qed
qed


theorem signal_decision_witness:
  "signal_for_row module_config CONFIDENCE_THRESHOLD signal_bar (Fin 0.82) =
     Inr (Some \<lparr>timestamp = 7, signal_symbol = ''EURUSD'', direction = LONG,
           confidence = Fin 0.82, prob_long = Fin 0.82, entry_price = Fin 10,
           tp_price = Fin 10.9, sl_price = Fin 9.5, signal_atr = Fin 0.5,
           risk_reward_ratio = Fin 1.8\<rparr>)
   \<and> signal_for_row module_config CONFIDENCE_THRESHOLD signal_bar (Fin 0.25) =
     Inr (Some \<lparr>timestamp = 7, signal_symbol = ''EURUSD'', direction = SHORT,
           confidence = Fin 0.75, prob_long = Fin 0.25, entry_price = Fin 10,
           tp_price = Fin 9.1, sl_price = Fin 10.5, signal_atr = Fin 0.5,
           risk_reward_ratio = Fin 1.8\<rparr>)
   \<and> signal_for_row module_config CONFIDENCE_THRESHOLD signal_bar (Fin 0.55) = Inr None
   \<and> generate_signals module_config CONFIDENCE_THRESHOLD [[(signal_bar, Fin 0.55)]] = Inr []"
proof -
  note T = signal_decision[OF signal_bar_valid]
  have l: "signal_for_row module_config CONFIDENCE_THRESHOLD signal_bar (Fin 0.82) =
     Inr (Some \<lparr>timestamp = 7, signal_symbol = ''EURUSD'', direction = LONG,
           confidence = Fin 0.82, prob_long = Fin 0.82, entry_price = Fin 10,
           tp_price = Fin 10.9, sl_price = Fin 9.5, signal_atr = Fin 0.5,
           risk_reward_ratio = Fin 1.8\<rparr>)"
    using T[of CONFIDENCE_THRESHOLD "Fin 0.82", THEN conjunct1]
    by (simp add: CONFIDENCE_THRESHOLD_def fge_def fsub_def signal_bar_def module_config_def)
  have s: "signal_for_row module_config CONFIDENCE_THRESHOLD signal_bar (Fin 0.25) =
     Inr (Some \<lparr>timestamp = 7, signal_symbol = ''EURUSD'', direction = SHORT,
           confidence = Fin 0.75, prob_long = Fin 0.25, entry_price = Fin 10,
           tp_price = Fin 9.1, sl_price = Fin 10.5, signal_atr = Fin 0.5,
           risk_reward_ratio = Fin 1.8\<rparr>)"
    using T[of CONFIDENCE_THRESHOLD "Fin 0.25", THEN conjunct1]
    by (simp add: CONFIDENCE_THRESHOLD_def fge_def fsub_def signal_bar_def module_config_def)
  have n: "signal_for_row module_config CONFIDENCE_THRESHOLD signal_bar (Fin 0.55) = Inr None"
    using T[of CONFIDENCE_THRESHOLD "Fin 0.55", THEN conjunct1]
    by (simp add: CONFIDENCE_THRESHOLD_def fge_def fsub_def)
  have g: "generate_signals module_config CONFIDENCE_THRESHOLD [[(signal_bar, Fin 0.55)]] = Inr []"
    using T[of CONFIDENCE_THRESHOLD "Fin 0.55", THEN conjunct2, THEN conjunct1] n
    by simp
  show ?thesis by (intro conjI l s n g)
qed

text \<open>
  C10. Every signal that the engine returns has direction LONG or SHORT, a confidence
  at least the threshold, a probability at least the threshold when it is LONG, and a
  probability at most one minus the threshold when it is SHORT.
\<close>

theorem emitted_signal_invariant:
  assumes "generate_signals cfg t frames = Inr sigs" and "s \<in> set sigs"
  shows "(direction s = LONG \<or> direction s = SHORT)
     \<and> fge (confidence s) t
     \<and> (direction s = LONG \<longrightarrow> fge (prob_long s) t)
     \<and> (direction s = SHORT \<longrightarrow> fle (prob_long s) (fsub (Fin 1) t))"
proof (rule generate_signals_invariant[OF assms(1) _ assms(2)])
  fix row p s
  assume "signal_for_row cfg t row p = Inr (Some s)"
  from signal_for_row_SomeD[OF this]
  obtain rr where
    "fge p t \<and> s = long_signal cfg row p rr \<or>
     \<not> fge p t \<and> fle p (fsub (Fin 1) t) \<and> s = short_signal cfg row p rr"
    by blast
  then show "(direction s = LONG \<or> direction s = SHORT)
     \<and> fge (confidence s) t
     \<and> (direction s = LONG \<longrightarrow> fge (prob_long s) t)
     \<and> (direction s = SHORT \<longrightarrow> fle (prob_long s) (fsub (Fin 1) t))"
    by (auto simp: long_signal_def short_signal_def short_confidence)
qed

theorem emitted_signal_invariant_witness:
  "generate_signals module_config CONFIDENCE_THRESHOLD example_frames =
     Inr [long_signal module_config signal_bar (Fin 0.82) (Fin 1.8),
          short_signal module_config signal_bar (Fin 0.25) (Fin 1.8)]
   \<and> direction (short_signal module_config signal_bar (Fin 0.25) (Fin 1.8)) = SHORT
   \<and> confidence (short_signal module_config signal_bar (Fin 0.25) (Fin 1.8)) = Fin 0.75
   \<and> fge (confidence (short_signal module_config signal_bar (Fin 0.25) (Fin 1.8)))
        CONFIDENCE_THRESHOLD
   \<and> fle (prob_long (short_signal module_config signal_bar (Fin 0.25) (Fin 1.8)))
        (fsub (Fin 1) CONFIDENCE_THRESHOLD)"
proof -
  have v: "\<And>p. signal_for_row module_config CONFIDENCE_THRESHOLD signal_bar p =
     (if fge p CONFIDENCE_THRESHOLD
      then Inr (Some (long_signal module_config signal_bar p (Fin 1.8)))
      else if fle p (fsub (Fin 1) CONFIDENCE_THRESHOLD)
      then Inr (Some (short_signal module_config signal_bar p (Fin 1.8)))
      else Inr None)"
    by (rule signal_for_row_eq[OF signal_bar_valid])
  have g: "generate_signals module_config CONFIDENCE_THRESHOLD example_frames =
     Inr [long_signal module_config signal_bar (Fin 0.82) (Fin 1.8),
          short_signal module_config signal_bar (Fin 0.25) (Fin 1.8)]"
    by (simp add: generate_signals_def example_frames_def v)
      (simp add: CONFIDENCE_THRESHOLD_def fge_def fsub_def)
  have m: "short_signal module_config signal_bar (Fin 0.25) (Fin 1.8) \<in>
     set [long_signal module_config signal_bar (Fin 0.82) (Fin 1.8),
          short_signal module_config signal_bar (Fin 0.25) (Fin 1.8)]"
    by simp
  have d: "direction (short_signal module_config signal_bar (Fin 0.25) (Fin 1.8)) = SHORT"
    "confidence (short_signal module_config signal_bar (Fin 0.25) (Fin 1.8)) = Fin 0.75"
    by (simp_all add: short_signal_def fsub_def)
  show ?thesis
    using emitted_signal_invariant[OF g m] g d by simp
qed

subsection \<open>Barriers of labeling against barriers of signal generation\<close>

text \<open>
  While the trend strength is at most 30 and the volatility ratio at least 0.8, labeling
  and signal generation place the four barriers at the same prices.
\<close>

lemma barriers_agree_default_regime:
  assumes "\<not> fgt (regime_trend ht b) (Fin 30)" and "\<not> flt (regime_vol hv b) (Fin 0.8)"
  shows "tp_long cfg hv ht b = tp_price (long_signal cfg b p rr)
       \<and> sl_long cfg b = sl_price (long_signal cfg b p rr)
       \<and> tp_short cfg hv ht b = tp_price (short_signal cfg b p rr)
       \<and> sl_short cfg b = sl_price (short_signal cfg b p rr)"
  using assms
  by (simp add: tp_long_def sl_long_def tp_short_def sl_short_def tp_mult_def sl_mult_def
      long_signal_def short_signal_def)


text \<open>
  C1 does not hold of the code. Labeling widens or tightens the take-profit multiple with
  the regime; signal generation always uses the configured multiple. For a bar with
  close 10, ATR 0.5 and trend strength 35, labeling places the long target at
  \<open>10 + 2.5 * 0.5 = 11.25\<close> and the short target at 8.75, while the signal for the
  same bar carries the targets \<open>10 + 1.8 * 0.5 = 10.9\<close> (LONG) and 9.1 (SHORT).
\<close>

theorem barrier_skew:
  "tp_long module_config True True signal_bar = Fin 11.25
   \<and> tp_short module_config True True signal_bar = Fin 8.75
   \<and> signal_for_row module_config CONFIDENCE_THRESHOLD signal_bar (Fin 0.82) =
     Inr (Some \<lparr>timestamp = 7, signal_symbol = ''EURUSD'', direction = LONG,
           confidence = Fin 0.82, prob_long = Fin 0.82, entry_price = Fin 10,
           tp_price = Fin 10.9, sl_price = Fin 9.5, signal_atr = Fin 0.5,
           risk_reward_ratio = Fin 1.8\<rparr>)
   \<and> signal_for_row module_config CONFIDENCE_THRESHOLD signal_bar (Fin 0.25) =
     Inr (Some \<lparr>timestamp = 7, signal_symbol = ''EURUSD'', direction = SHORT,
           confidence = Fin 0.75, prob_long = Fin 0.25, entry_price = Fin 10,
           tp_price = Fin 9.1, sl_price = Fin 10.5, signal_atr = Fin 0.5,
           risk_reward_ratio = Fin 1.8\<rparr>)"
  by (simp add: tp_long_def tp_short_def tp_mult_def regime_trend_def regime_vol_def
      current_trend_def current_vol_ratio_def isnan_def fgt_def signal_bar_def
      module_config_def signal_for_row_def determine_direction_def
      CONFIDENCE_THRESHOLD_def fge_def fsub_def is_zero_def)

subsection \<open>The whole labeling run\<close>

lemma label_loop_Inr:
  "(\<forall>i \<in> set is. \<exists>l. f i = Inr l) \<Longrightarrow>
   \<exists>ls. label_loop f is = Inr ls \<and> length ls = length is \<and>
        (\<forall>k < length is. f (is ! k) = Inr (ls ! k))"
proof (induction "is")
  case Nil
  then show ?case by simp
next
  case (Cons i "is")
  then obtain l ls where l: "f i = Inr l" and ls: "label_loop f is = Inr ls"
    "length ls = length is" "\<forall>k < length is. f (is ! k) = Inr (ls ! k)"
    by auto
  have "\<forall>k < length (i # is). f ((i # is) ! k) = Inr ((l # ls) ! k)"
    using l ls(3) by (auto simp: nth_Cons split: nat.splits)
  with l ls show ?case by simp
qed

lemma label_at_total:
  "i < length bs \<Longrightarrow> \<exists>l. label_at cfg hv ht bs i = Inr l"
  using label_at_eq[of i bs cfg hv ht] label_at_skip[of i bs cfg hv ht] by blast

lemma apply_triple_barrier_total:
  "\<exists>labels. apply_triple_barrier_for_symbol cfg df = Inr (zip (sorted_rows df) labels)
     \<and> length labels = length (rows df)
     \<and> (\<forall>i < length labels.
          label_at cfg (has_vol_ratio df) (has_trend_strength df) (sorted_rows df) i
            = Inr (labels ! i))"
proof -
  let ?bs = "sorted_rows df"
  let ?f = "label_at cfg (has_vol_ratio df) (has_trend_strength df) ?bs"
  have n: "length ?bs = length (rows df)" by (simp add: sorted_rows_def)
  have "\<forall>i \<in> set [0 ..< length ?bs]. \<exists>l. ?f i = Inr l"
    using label_at_total by simp
  from label_loop_Inr[OF this]
  obtain ls where ls: "label_loop ?f [0 ..< length ?bs] = Inr ls" "length ls = length ?bs"
    "\<forall>k < length ?bs. ?f k = Inr (ls ! k)"
    by auto
  then show ?thesis
    using n by (auto simp: apply_triple_barrier_for_symbol_def Let_def)
qed

subsection \<open>Skipped bars and unchecked configurations\<close>

lemma signal_for_row_skip:
  "atr_missing (atr row) \<Longrightarrow> signal_for_row cfg t row p = Inr None"
  by (simp add: signal_for_row_def atr_missing_def split: prod.splits)

lemma py_truediv_Inl:
  "py_truediv a b = Inl e \<Longrightarrow> e = ZeroDivisionError \<and> is_zero b"
  by (cases a; cases b) (auto simp: is_zero_def split: if_splits)

lemma py_truediv_Inr:
  "\<not> is_zero b \<Longrightarrow> \<exists>rr. py_truediv a b = Inr rr"
  by (cases a; cases b) (auto simp: is_zero_def)

lemma signal_for_row_Inl:
  "signal_for_row cfg t row p = Inl e \<Longrightarrow> e = ZeroDivisionError \<and> is_zero (SL_ATR_MULT cfg)"
  by (auto simp: signal_for_row_def Let_def dest: py_truediv_Inl
      split: prod.splits if_splits sum.splits)

lemma rows_loop_Inl:
  "rows_loop cfg t rs acc = Inl e \<Longrightarrow> e = ZeroDivisionError \<and> is_zero (SL_ATR_MULT cfg)"
proof (induction rs arbitrary: acc)
  case Nil
  then show ?case by simp
next
  case (Cons a rs)
  obtain row p where a: "a = (row, p)" by (cases a)
  show ?case
    using Cons.prems Cons.IH a signal_for_row_Inl[of cfg t row p]
    by (auto split: sum.splits option.splits)
qed

lemma symbols_loop_Inl:
  "symbols_loop cfg t fs acc = Inl e \<Longrightarrow> e = ZeroDivisionError \<and> is_zero (SL_ATR_MULT cfg)"
proof (induction fs arbitrary: acc)
  case Nil
  then show ?case by simp
next
  case (Cons f fs)
  show ?case
    using Cons.prems Cons.IH rows_loop_Inl[of cfg t f acc]
    by (auto split: sum.splits)
qed

lemma no_trade_zone_empty:
  "fle t (Fin 0.5) \<Longrightarrow> \<not> isnan p \<Longrightarrow> fge p t \<or> fle p (fsub (Fin 1) t)"
  by (cases p; cases t) (auto simp: fsub_def fge_def isnan_def)

text \<open>
  C7, as the claim states it, fails. A bar whose volatility ratio and trend strength are
  NaN is not skipped in training mode: the two values are replaced by 1.0 and 0.0, the
  bar is scanned, and here it gets the label \<open>+1\<close>. A bar whose ATR is infinite is not
  skipped in inference mode: a LONG signal with an infinite target is emitted.
\<close>

theorem regime_nan_counterexample:
  "isnan (vol_ratio (rows regime_nan_frame ! 0))
   \<and> isnan (trend_strength (rows regime_nan_frame ! 0))
   \<and> apply_triple_barrier_for_symbol module_config regime_nan_frame =
       Inr [(rows regime_nan_frame ! 0, 1), (rows regime_nan_frame ! 1, 0)]
   \<and> signal_for_row module_config CONFIDENCE_THRESHOLD inf_atr_bar (Fin 0.82) =
       Inr (Some \<lparr>timestamp = 7, signal_symbol = ''EURUSD'', direction = LONG,
             confidence = Fin 0.82, prob_long = Fin 0.82, entry_price = Fin 10,
             tp_price = PInf, sl_price = NInf, signal_atr = PInf,
             risk_reward_ratio = Fin 1.8\<rparr>)"
  by code_simp


text \<open>
  C7, amended. Labeling raises no exception and returns one label for every row; a bar
  whose ATR is NaN or zero gets the label \<open>0\<close>, whatever the other bars are. In the
  signal loop a row whose ATR is NaN or zero gives no signal and the loop goes on with
  the remaining rows. A NaN volatility ratio is replaced by 1.0 and a NaN trend strength
  by 0.0; such a bar is labeled like any other.
\<close>

theorem missing_atr_skipped:
  "(\<exists>labels. apply_triple_barrier_for_symbol cfg df = Inr (zip (sorted_rows df) labels)
      \<and> length labels = length (rows df)
      \<and> (\<forall>i < length labels.
            isnan (atr (sorted_rows df ! i)) \<or> is_zero (atr (sorted_rows df ! i))
            \<longrightarrow> labels ! i = 0))
   \<and> (isnan (atr row) \<or> is_zero (atr row) \<longrightarrow>
        signal_for_row cfg t row p = Inr None \<and>
        rows_loop cfg t ((row, p) # rest) signals = rows_loop cfg t rest signals)
   \<and> regime_vol hv (b\<lparr>vol_ratio := NaN\<rparr>) = Fin 1
   \<and> regime_trend ht (b\<lparr>trend_strength := NaN\<rparr>) = Fin 0"
proof (intro conjI impI)
  obtain labels where l: "apply_triple_barrier_for_symbol cfg df = Inr (zip (sorted_rows df) labels)"
    "length labels = length (rows df)"
    "\<forall>i < length labels.
          label_at cfg (has_vol_ratio df) (has_trend_strength df) (sorted_rows df) i
            = Inr (labels ! i)"
    using apply_triple_barrier_total by blast
  have "labels ! i = 0"
    if "i < length labels"
      and "isnan (atr (sorted_rows df ! i)) \<or> is_zero (atr (sorted_rows df ! i))" for i
  proof -
    have "i < length (sorted_rows df)" using that(1) l(2) by (simp add: sorted_rows_def)
    from label_at_skip[OF this, of cfg "has_vol_ratio df" "has_trend_strength df"] that l(3)
    show ?thesis by (simp add: atr_missing_def)
  qed
  with l(1,2) show "\<exists>labels. apply_triple_barrier_for_symbol cfg df = Inr (zip (sorted_rows df) labels)
      \<and> length labels = length (rows df)
      \<and> (\<forall>i < length labels.
            isnan (atr (sorted_rows df ! i)) \<or> is_zero (atr (sorted_rows df ! i))
            \<longrightarrow> labels ! i = 0)"
    by blast
next
  assume a: "isnan (atr row) \<or> is_zero (atr row)"
  then show "signal_for_row cfg t row p = Inr None"
    by (simp add: signal_for_row_skip atr_missing_def)
  then show "rows_loop cfg t ((row, p) # rest) signals = rows_loop cfg t rest signals"
    by simp
next
  show "regime_vol hv (b\<lparr>vol_ratio := NaN\<rparr>) = Fin 1"
    by (simp add: regime_vol_def current_vol_ratio_def isnan_def)
  show "regime_trend ht (b\<lparr>trend_strength := NaN\<rparr>) = Fin 0"
    by (simp add: regime_trend_def current_trend_def isnan_def)
qed

theorem missing_atr_skipped_witness:
  "isnan (atr (sorted_rows missing_atr_frame ! 0))
   \<and> is_zero (atr (sorted_rows missing_atr_frame ! 1))
   \<and> map snd (projr (apply_triple_barrier_for_symbol module_config missing_atr_frame)) = [0, 0, 0]
   \<and> signal_for_row module_config CONFIDENCE_THRESHOLD (sorted_rows missing_atr_frame ! 0)
        (Fin 0.82) = Inr None
   \<and> signal_for_row module_config CONFIDENCE_THRESHOLD (sorted_rows missing_atr_frame ! 1)
        (Fin 0.25) = Inr None"
proof -
  let ?bs = "sorted_rows missing_atr_frame"
  note T = missing_atr_skipped[of module_config missing_atr_frame _ CONFIDENCE_THRESHOLD]
  have a0: "isnan (atr (?bs ! 0))" and a1: "is_zero (atr (?bs ! 1))"
    by code_simp+
  have n: "length (rows missing_atr_frame) = 3" "length ?bs = 3" by code_simp+
  from T[of "?bs ! 0" "Fin 0.82", THEN conjunct1]
  obtain labels where l:
    "apply_triple_barrier_for_symbol module_config missing_atr_frame = Inr (zip ?bs labels)"
    "length labels = 3"
    "\<forall>i < length labels. isnan (atr (?bs ! i)) \<or> is_zero (atr (?bs ! i)) \<longrightarrow> labels ! i = 0"
    using n by auto
  have z: "labels ! 0 = 0 \<and> labels ! 1 = 0" using l(2,3) a0 a1 by auto
  have "apply_triple_barrier_for_symbol module_config missing_atr_frame =
          Inr (zip ?bs [0, 0, 0])"
    by code_simp
  with l(1,2) n(2) have "zip ?bs labels = zip ?bs [0, 0, 0]" by simp
  then have "map snd (zip ?bs labels) = map snd (zip ?bs [0, 0, 0])" by simp
  then have "labels = [0, 0, 0]" using l(2) n(2) by simp
  with l(1) n(2) have r: "map snd (projr (apply_triple_barrier_for_symbol module_config
     missing_atr_frame)) = [0, 0, 0]"
    by simp
  have s0: "signal_for_row module_config CONFIDENCE_THRESHOLD (?bs ! 0) (Fin 0.82) = Inr None"
    using T[of "?bs ! 0" "Fin 0.82", THEN conjunct2, THEN conjunct1] a0 by simp
  have s1: "signal_for_row module_config CONFIDENCE_THRESHOLD (?bs ! 1) (Fin 0.25) = Inr None"
    using T[of "?bs ! 1" "Fin 0.25", THEN conjunct2, THEN conjunct1] a1 by simp
  show ?thesis by (intro conjI a0 a1 r s0 s1)
qed

text \<open>
  C8, as the claim states it, fails: nothing rejects a configuration. With a confidence
  threshold of 0.3 signal generation runs and turns a probability of 0.45 into a LONG
  signal; with a horizon floor of 3 above a baseline horizon of 2 labeling runs and
  labels every bar.
\<close>

theorem unchecked_configuration_counterexample:
  "fle (Fin 0.3) (Fin 0.5)
   \<and> generate_signals module_config (Fin 0.3) [[(signal_bar, Fin 0.45)]] =
       Inr [long_signal module_config signal_bar (Fin 0.45) (Fin 1.8)]
   \<and> MAX_HORIZON_DAYS config_inverted < MIN_HORIZON_DAYS config_inverted
   \<and> apply_triple_barrier_for_symbol config_inverted regime_nan_frame =
       Inr [(rows regime_nan_frame ! 0, 1), (rows regime_nan_frame ! 1, 0)]"
  by code_simp

text \<open>
  C8, amended. No configuration is rejected, neither when it is loaded nor later.
  Labeling returns a label for every row under every configuration. Signal generation
  accepts every confidence threshold: with a threshold of at most 0.5, every row with a
  probability that is not NaN and an ATR that is neither NaN nor zero gives a LONG or a
  SHORT signal. The only exception the signal loops raise is the division by a
  stop-loss multiple of zero.
\<close>

theorem no_configuration_check:
  "(\<exists>labels. apply_triple_barrier_for_symbol cfg df = Inr (zip (sorted_rows df) labels)
      \<and> length labels = length (rows df))
   \<and> (fle t (Fin 0.5) \<and> \<not> isnan p \<and> \<not> (isnan (atr row) \<or> is_zero (atr row))
        \<and> \<not> is_zero (SL_ATR_MULT cfg) \<longrightarrow>
       (\<exists>s. signal_for_row cfg t row p = Inr (Some s)
          \<and> (direction s = LONG \<or> direction s = SHORT)))
   \<and> (\<forall>e. generate_signals cfg t frames = Inl e \<longrightarrow>
         e = ZeroDivisionError \<and> is_zero (SL_ATR_MULT cfg))"
proof (intro conjI impI allI)
  show "\<exists>labels. apply_triple_barrier_for_symbol cfg df = Inr (zip (sorted_rows df) labels)
      \<and> length labels = length (rows df)"
    using apply_triple_barrier_total[of cfg df] by blast
next
  assume a: "fle t (Fin 0.5) \<and> \<not> isnan p \<and> \<not> (isnan (atr row) \<or> is_zero (atr row))
        \<and> \<not> is_zero (SL_ATR_MULT cfg)"
  then obtain rr where rr: "py_truediv (TP_ATR_MULT cfg) (SL_ATR_MULT cfg) = Inr rr"
    using py_truediv_Inr by blast
  have v: "\<not> atr_missing (atr row)" using a by (simp add: atr_missing_def)
  have z: "fge p t \<or> fle p (fsub (Fin 1) t)" using a no_trade_zone_empty by blast
  show "\<exists>s. signal_for_row cfg t row p = Inr (Some s)
          \<and> (direction s = LONG \<or> direction s = SHORT)"
    using z signal_for_row_eq[OF v rr, of t p]
    by (auto simp: long_signal_def short_signal_def)
next
  fix e
  assume "generate_signals cfg t frames = Inl e"
  then show "e = ZeroDivisionError" "is_zero (SL_ATR_MULT cfg)"
    using symbols_loop_Inl[of cfg t frames "[]" e] by (simp_all add: generate_signals_def)
qed

theorem no_configuration_check_witness:
  "fle (Fin 0.3) (Fin 0.5)
   \<and> signal_for_row module_config (Fin 0.3) signal_bar (Fin 0.45) =
       Inr (Some (long_signal module_config signal_bar (Fin 0.45) (Fin 1.8)))
   \<and> signal_for_row module_config (Fin 0.3) signal_bar (Fin 0.2) =
       Inr (Some (short_signal module_config signal_bar (Fin 0.2) (Fin 1.8)))"
proof -
  have a: "fle (Fin 0.3) (Fin 0.5) \<and> \<not> isnan (Fin 0.45)
      \<and> \<not> (isnan (atr signal_bar) \<or> is_zero (atr signal_bar))
      \<and> \<not> is_zero (SL_ATR_MULT module_config)"
    and b: "fle (Fin 0.3) (Fin 0.5) \<and> \<not> isnan (Fin 0.2)
      \<and> \<not> (isnan (atr signal_bar) \<or> is_zero (atr signal_bar))
      \<and> \<not> is_zero (SL_ATR_MULT module_config)"
    by code_simp+
  note T = no_configuration_check[of module_config _ "Fin 0.3" _ signal_bar, THEN conjunct2,
      THEN conjunct1, THEN mp]
  from T[OF a] obtain s where s: "signal_for_row module_config (Fin 0.3) signal_bar (Fin 0.45)
     = Inr (Some s)" by blast
  from T[OF b] obtain s' where s': "signal_for_row module_config (Fin 0.3) signal_bar (Fin 0.2)
     = Inr (Some s')" by blast
  have "signal_for_row module_config (Fin 0.3) signal_bar (Fin 0.45) =
       Inr (Some (long_signal module_config signal_bar (Fin 0.45) (Fin 1.8)))"
    by code_simp
  moreover have "signal_for_row module_config (Fin 0.3) signal_bar (Fin 0.2) =
       Inr (Some (short_signal module_config signal_bar (Fin 0.2) (Fin 1.8)))"
    by code_simp
  ultimately show ?thesis using a s s' by simp
qed

end
